theory Spec2Isabelle
  imports Main "HOL-Library.Multiset"
begin

section \<open>The kafka list command (pkg/cmd/kafka/list/list.go)\<close>

text \<open>
  A shallow embedding of \<^verbatim>\<open>runList\<close>, \<^verbatim>\<open>mapResponseItemsToRows\<close>,
  \<^verbatim>\<open>getClusterIdMapFromKafkas\<close>, \<^verbatim>\<open>createSearchString\<close> and \<^verbatim>\<open>buildQuery\<close>.
  Go strings are byte lists, a Go \<^verbatim>\<open>error\<close> is a value carrying its message, a nil pointer is
  \<open>None\<close>, and dereferencing nil is the fault \<open>NilPointerDereference\<close> (a Go panic).
  Everything the command does to the outside (log lines, standard output, the two API
  requests, the rendering of the table or of the structured document) is recorded, in order,
  as a list of events.
\<close>

subsection \<open>Data\<close>

datatype goerror = GoError string

primrec Error :: "goerror \<Rightarrow> string" where
  "Error (GoError msg) = msg"

datatype fault = NilPointerDereference

text \<open>
  \<^verbatim>\<open>models.KafkaRequestable\<close>: the source reads it only through getters that return
  \<^verbatim>\<open>*string\<close> (it writes \<^verbatim>\<open>*k.GetName()\<close>, and tests \<^verbatim>\<open>k.GetClusterId() != nil\<close>).
\<close>

record KafkaRequest =
  GetId :: "string option"
  GetName :: "string option"
  GetOwner :: "string option"
  GetStatus :: "string option"
  GetCloudProvider :: "string option"
  GetRegion :: "string option"
  GetClusterId :: "string option"

record KafkaRequestList =
  GetItems :: "KafkaRequest list"

text \<open>
  \<^verbatim>\<open>v1.Cluster\<close> of the ocm-sdk-go library, read through \<^verbatim>\<open>ID()\<close> and \<^verbatim>\<open>Name()\<close>.
  The source holds clusters as \<^verbatim>\<open>*v1.Cluster\<close>; a map lookup that misses yields the nil
  pointer. The library's generated getters test their receiver
  (\<^verbatim>\<open>if o != nil && ... { return o.name }; return ""\<close>), so on nil they return the empty
  string.
\<close>

record Cluster =
  cluster_id :: string
  cluster_name :: string

definition Cluster_ID :: "Cluster option \<Rightarrow> string" where
  "Cluster_ID o' = (case o' of Some c \<Rightarrow> cluster_id c | None \<Rightarrow> [])"

definition Cluster_Name :: "Cluster option \<Rightarrow> string" where
  "Cluster_Name o' = (case o' of Some c \<Rightarrow> cluster_name c | None \<Rightarrow> [])"

record kafkaRow =
  ID :: string
  Name :: string
  Owner :: string
  Status :: string
  CloudProvider :: string
  Region :: string
  OpenshiftCluster :: string

record options =
  outputFormat :: string
  page :: int
  limit :: int
  search :: string
  accessToken :: string
  clusterManagementApiUrl :: string

text \<open>
  The request builder of the older client, \<^verbatim>\<open>api.KafkaMgmt().GetKafkas(ctx)\<close>, with its
  setters \<^verbatim>\<open>Page\<close>, \<^verbatim>\<open>Size\<close> and \<^verbatim>\<open>Search\<close>.
\<close>

record ApiGetKafkasRequest =
  req_page :: "string option"
  req_size :: "string option"
  req_search :: "string option"

definition GetKafkas :: ApiGetKafkasRequest where
  "GetKafkas = \<lparr>req_page = None, req_size = None, req_search = None\<rparr>"

definition Page :: "ApiGetKafkasRequest \<Rightarrow> string \<Rightarrow> ApiGetKafkasRequest" where
  "Page a p = a\<lparr>req_page := Some p\<rparr>"

definition Size :: "ApiGetKafkasRequest \<Rightarrow> string \<Rightarrow> ApiGetKafkasRequest" where
  "Size a s = a\<lparr>req_size := Some s\<rparr>"

definition Search :: "ApiGetKafkasRequest \<Rightarrow> string \<Rightarrow> ApiGetKafkasRequest" where
  "Search a q = a\<lparr>req_search := Some q\<rparr>"

text \<open>
  Modelled from the spec: the request configuration of the generated client's
  \<^verbatim>\<open>Kafkas().Get(ctx, config)\<close> (package pkg/apisdk, not among the sources). The spec's
  Instance Fetcher takes a page number, a page size and an optional filter predicate; these
  are the query parameters a configuration can carry. The source passes \<^verbatim>\<open>nil\<close>.
\<close>

record KafkasRequestConfiguration =
  query_page :: "string option"
  query_size :: "string option"
  query_search :: "string option"

record APIConnection =
  AccessToken :: string

text \<open>
  The source's \<^verbatim>\<open>RedHatAccessTokenProvider\<close> (lines 99-109) holds the access token and
  hands it out as it is. \<^verbatim>\<open>authentication.NewBaseBearerTokenAuthenticationProvider\<close> of
  the kiota-abstractions-go library wraps it and returns a pointer that is never nil.
  \<^verbatim>\<open>http.NewNetHttpRequestAdapter\<close> of the kiota-http-go library returns an error only
  for a nil provider
  (\<^verbatim>\<open>if authenticationProvider == nil { return nil, errors.New(...) }\<close>), and otherwise the
  adapter built on the provider.
\<close>

datatype RedHatAccessTokenProvider = RedHatAccessTokenProvider string

primrec GetAuthorizationToken :: "RedHatAccessTokenProvider \<Rightarrow> string \<times> goerror option" where
  "GetAuthorizationToken (RedHatAccessTokenProvider token) = (token, None)"

datatype BaseBearerTokenAuthenticationProvider =
  BaseBearerTokenAuthenticationProvider RedHatAccessTokenProvider

definition NewBaseBearerTokenAuthenticationProvider ::
  "RedHatAccessTokenProvider \<Rightarrow> BaseBearerTokenAuthenticationProvider option" where
  "NewBaseBearerTokenAuthenticationProvider tokenProvider =
     Some (BaseBearerTokenAuthenticationProvider tokenProvider)"

datatype RequestAdapter = NetHttpRequestAdapter BaseBearerTokenAuthenticationProvider

definition NewNetHttpRequestAdapter ::
  "BaseBearerTokenAuthenticationProvider option \<Rightarrow> RequestAdapter option \<times> goerror option" where
  "NewNetHttpRequestAdapter authenticationProvider =
     (case authenticationProvider of
        None \<Rightarrow> (None, Some (GoError ''authenticationProvider cannot be nil''))
      | Some p \<Rightarrow> (Some (NetHttpRequestAdapter p), None))"

datatype ServiceContext = ServiceContext nat

record ServiceConfig =
  KafkaID :: string

datatype event =
    Debug string
  | Info string
  | Printf string
  | KafkasGetRequest "RequestAdapter option" "KafkasRequestConfiguration option"
  | ClusterListRequest string string string int int
  | TableOut "kafkaRow list"
  | FormattedOut string KafkaRequestList

text \<open>
  What an invocation meets outside list.go: the collaborators reached through the factory
  \<^verbatim>\<open>opts.f\<close>, the two APIs, the renderer, the build constant for the first page, and the
  order in which the Go runtime's \<^verbatim>\<open>range\<close> visits the keys of a map (unspecified by the
  language; each key is visited once). \<open>KafkasGet\<close> is the generated client built on an
  adapter, \<^verbatim>\<open>apisdk.NewApiClient(adapter)\<close>, asked for the instances with a request
  configuration: \<^verbatim>\<open>Api().Kafkas_mgmt().V1().Kafkas().Get(ctx, config)\<close>.
\<close>

record environment =
  Connection :: "goerror + APIConnection"
  KafkasGet :: "RequestAdapter option \<Rightarrow> KafkasRequestConfiguration option
                  \<Rightarrow> goerror + KafkaRequestList"
  GetClusterListWithSearchParams :: "string \<Rightarrow> string \<Rightarrow> string \<Rightarrow> int \<Rightarrow> int
                  \<Rightarrow> goerror + Cluster list"
  ServiceContextLoad :: "goerror + ServiceContext"
  GetCurrentContext :: "ServiceContext \<Rightarrow> goerror + ServiceConfig"
  MustLocalize :: "string \<Rightarrow> (string \<times> string) list \<Rightarrow> string"
  Emoji :: "string \<Rightarrow> string \<Rightarrow> string"
  Formatted :: "string \<Rightarrow> KafkaRequestList \<Rightarrow> goerror option"
  DefaultPageNumber :: int
  mapRange :: "string list \<Rightarrow> string list"

text \<open>
  Modelled from the spec: \<^verbatim>\<open>dump.EmptyFormat\<close> is declared in pkg/core/ioutil/dump, not
  among the sources; by the spec's section 6 the empty string means the table format.
\<close>

definition EmptyFormat :: string where
  "EmptyFormat = []"

subsection \<open>strconv.Itoa\<close>

fun decimal :: "nat \<Rightarrow> string" where
  "decimal n = (if n < 10 then [char_of (48 + n)]
                else decimal (n div 10) @ [char_of (48 + n mod 10)])"

declare decimal.simps [simp del]

definition Itoa :: "int \<Rightarrow> string" where
  "Itoa i = (if i < 0 then CHR ''-'' # decimal (nat (- i)) else decimal (nat i))"

subsection \<open>buildQuery\<close>

text \<open>
  \<^verbatim>\<open>fmt.Sprintf\<close> of the format
  \<^verbatim>\<open>name like %%%[1]v%% or owner like %%%[1]v%% or ... or status like %%%[1]v%%\<close>:
  every \<^verbatim>\<open>%%\<close> prints a percent sign and every \<^verbatim>\<open>%[1]v\<close> prints the first argument,
  the search term, as it is.
\<close>

definition buildQuery :: "string \<Rightarrow> string" where
  "buildQuery search' =
     ''name like %'' @ search' @ ''% or owner like %'' @ search'
     @ ''% or cloud_provider like %'' @ search' @ ''% or region like %'' @ search'
     @ ''% or status like %'' @ search' @ ''%''"

subsection \<open>createSearchString\<close>

text \<open>
  The set \<^verbatim>\<open>map[string]struct{}\<close> is the list of its keys, without repetition, in the order
  of insertion; \<^verbatim>\<open>range\<close> visits them in the order \<open>mapRange\<close> gives.
\<close>

definition setInsert :: "string \<Rightarrow> string list \<Rightarrow> string list" where
  "setInsert k m = (if k \<in> set m then m else m @ [k])"

fun createSearchLoop :: "string list \<Rightarrow> string \<Rightarrow> nat \<Rightarrow> string" where
  "createSearchLoop [] searchString index = searchString"
| "createSearchLoop (id' # ids) searchString index =
     createSearchLoop ids
       ((if index > 0 then searchString @ '' or '' else searchString)
          @ ''id = '' @ [CHR 0x27] @ id' @ [CHR 0x27])
       (index + 1)"

definition createSearchString :: "environment \<Rightarrow> string list \<Rightarrow> string" where
  "createSearchString f idSet = createSearchLoop (mapRange f idSet) [] 0"

subsection \<open>getClusterIdMapFromKafkas\<close>

fun collectClusterIds :: "KafkaRequest list \<Rightarrow> string list \<Rightarrow> string list" where
  "collectClusterIds [] kafkaClusterIds = kafkaClusterIds"
| "collectClusterIds (kafka # kafkas) kafkaClusterIds =
     (case GetClusterId kafka of
        Some c \<Rightarrow> collectClusterIds kafkas (setInsert c kafkaClusterIds)
      | None \<Rightarrow> collectClusterIds kafkas kafkaClusterIds)"

fun indexClusters :: "Cluster list \<Rightarrow> (string \<rightharpoonup> Cluster) \<Rightarrow> (string \<rightharpoonup> Cluster)" where
  "indexClusters [] idToCluster = idToCluster"
| "indexClusters (cluster # clusters) idToCluster =
     indexClusters clusters (idToCluster(Cluster_ID (Some cluster) \<mapsto> cluster))"

definition getClusterIdMapFromKafkas ::
  "environment \<Rightarrow> options \<Rightarrow> KafkaRequest list
     \<Rightarrow> event list \<times> (goerror + (string \<rightharpoonup> Cluster))" where
  "getClusterIdMapFromKafkas f opts kafkas =
     (let kafkaClusterIds = collectClusterIds kafkas [];
          idToCluster = Map.empty
      in if length kafkaClusterIds = 0 then ([], Inr idToCluster)
         else
           let searchString = createSearchString f kafkaClusterIds;
               pageNumber = DefaultPageNumber f;
               size' = int (length kafkaClusterIds)
           in ([ClusterListRequest (clusterManagementApiUrl opts) (accessToken opts)
                  searchString pageNumber size'],
               case GetClusterListWithSearchParams f (clusterManagementApiUrl opts)
                      (accessToken opts) searchString pageNumber size' of
                 Inl err \<Rightarrow> Inl err
               | Inr clusterList \<Rightarrow> Inr (indexClusters clusterList idToCluster)))"

subsection \<open>mapResponseItemsToRows\<close>

definition deref :: "'a option \<Rightarrow> fault + 'a" where
  "deref p = (case p of None \<Rightarrow> Inl NilPointerDereference | Some v \<Rightarrow> Inr v)"

definition andThen :: "fault + 'a \<Rightarrow> ('a \<Rightarrow> fault + 'b) \<Rightarrow> fault + 'b" where
  "andThen r k = (case r of Inl e \<Rightarrow> Inl e | Inr v \<Rightarrow> k v)"

text \<open>The check mark \<^verbatim>\<open>U+2714\<close> of the source, in UTF-8.\<close>

definition checkMark :: string where
  "checkMark = [CHR 0xE2, CHR 0x9C, CHR 0x94]"

text \<open>One turn of the loop of \<^verbatim>\<open>mapResponseItemsToRows\<close>: the row of \<^verbatim>\<open>kafkas[i]\<close>.\<close>

definition rowOf ::
  "environment \<Rightarrow> KafkaRequest \<Rightarrow> string \<Rightarrow> (string \<rightharpoonup> Cluster) \<Rightarrow> fault + kafkaRow" where
  "rowOf f k selectedId clusterIdMap =
     andThen (deref (GetName k)) (\<lambda>name0.
     andThen (deref (GetId k)) (\<lambda>id0.
       let name = (if id0 = selectedId
                   then name0 @ '' '' @ Emoji f checkMark ''(current)''
                   else name0);
           openshiftCluster =
             (case GetClusterId k of
                Some c \<Rightarrow>
                  let cluster = clusterIdMap c
                  in Cluster_Name cluster @ '' ('' @ Cluster_ID cluster @ '')''
              | None \<Rightarrow> MustLocalize f ''kafka.list.output.openshiftCluster.redhat'' [])
       in
     andThen (deref (GetId k)) (\<lambda>id1.
     andThen (deref (GetOwner k)) (\<lambda>owner.
     andThen (deref (GetStatus k)) (\<lambda>status.
     andThen (deref (GetCloudProvider k)) (\<lambda>cloudProvider.
     andThen (deref (GetRegion k)) (\<lambda>region.
       Inr \<lparr>ID = id1, Name = name, Owner = owner, Status = status,
            CloudProvider = cloudProvider, Region = region,
            OpenshiftCluster = openshiftCluster\<rparr>)))))))"

fun mapResponseItemsToRows ::
  "environment \<Rightarrow> KafkaRequest list \<Rightarrow> string \<Rightarrow> (string \<rightharpoonup> Cluster)
     \<Rightarrow> fault + kafkaRow list" where
  "mapResponseItemsToRows f [] selectedId clusterIdMap = Inr []"
| "mapResponseItemsToRows f (k # kafkas) selectedId clusterIdMap =
     andThen (rowOf f k selectedId clusterIdMap) (\<lambda>row.
     andThen (mapResponseItemsToRows f kafkas selectedId clusterIdMap) (\<lambda>rows.
       Inr (row # rows)))"

subsection \<open>runList\<close>

text \<open>
  The result pairs the events of the invocation with how it ended: \<open>Inr None\<close> is
  \<^verbatim>\<open>return nil\<close>, \<open>Inr (Some err)\<close> is \<^verbatim>\<open>return err\<close>, \<open>Inl\<close> is a panic.
\<close>

definition runList :: "environment \<Rightarrow> options \<Rightarrow> event list \<times> (fault + goerror option)" where
  "runList f opts =
     (case Connection f of
        Inl err \<Rightarrow> ([], Inr (Some err))
      | Inr conn \<Rightarrow>
          let a = GetKafkas;
              a = Page a (Itoa (page opts));
              a = Size a (Itoa (limit opts));
              (ev1, a) =
                (if search opts \<noteq> []
                 then let query = buildQuery (search opts)
                      in ([Debug (MustLocalize f ''kafka.list.log.debug.filteringKafkaList''
                                    [(''Search'', query)])],
                          Search a query)
                 else ([], a));
              tokenProvider = RedHatAccessTokenProvider (AccessToken conn);
              provider = NewBaseBearerTokenAuthenticationProvider tokenProvider;
              (adapter, err) = NewNetHttpRequestAdapter provider;
              ev2 = (case err of
                       Some e \<Rightarrow> [Printf (''Error creating request adapter: '' @ Error e
                                           @ [CHR 0x0A])]
                     | None \<Rightarrow> []);
              ev3 = [Printf (''+++ Using Kiota client'' @ [CHR 0x0A])];
              ev = ev1 @ ev2 @ ev3 @ [KafkasGetRequest adapter None]
          in case KafkasGet f adapter None of
               Inl err \<Rightarrow> (ev, Inr (Some err))
             | Inr kiotaResponse \<Rightarrow>
                 if length (GetItems kiotaResponse) = 0 \<and> outputFormat opts = []
                 then (ev @ [Info (MustLocalize f ''kafka.common.log.info.noKafkaInstances'' [])],
                       Inr None)
                 else
                   (case getClusterIdMapFromKafkas f opts (GetItems kiotaResponse) of
                      (ev4, Inl err) \<Rightarrow> (ev @ ev4, Inr (Some err))
                    | (ev4, Inr clusterIdMap) \<Rightarrow>
                        if outputFormat opts = EmptyFormat
                        then
                          (case ServiceContextLoad f of
                             Inl err \<Rightarrow> (ev @ ev4, Inr (Some err))
                           | Inr svcContext \<Rightarrow>
                               (case GetCurrentContext f svcContext of
                                  Inl err \<Rightarrow> (ev @ ev4, Inr (Some err))
                                | Inr currCtx \<Rightarrow>
                                    (case (if KafkaID currCtx \<noteq> []
                                           then mapResponseItemsToRows f (GetItems kiotaResponse)
                                                  (KafkaID currCtx) clusterIdMap
                                           else mapResponseItemsToRows f (GetItems kiotaResponse)
                                                  ''-'' clusterIdMap) of
                                       Inl panic \<Rightarrow> (ev @ ev4, Inl panic)
                                     | Inr rows \<Rightarrow>
                                         (ev @ ev4 @ [TableOut rows, Info []], Inr None))))
                        else (ev @ ev4 @ [FormattedOut (outputFormat opts) kiotaResponse],
                              Inr (Formatted f (outputFormat opts) kiotaResponse))))"

section \<open>Vocabulary of the properties\<close>

subsection \<open>Predicates in the spec's words\<close>

text \<open>The Query Builder's predicate: one substring clause per field, joined by "or".\<close>

definition likeClause :: "string \<Rightarrow> string \<Rightarrow> string" where
  "likeClause term' field = field @ '' like %'' @ term' @ ''%''"

fun joinOr :: "string list \<Rightarrow> string" where
  "joinOr [] = []"
| "joinOr [c] = c"
| "joinOr (c # cs) = c @ '' or '' @ joinOr cs"

definition searchFields :: "string list" where
  "searchFields = [''name'', ''owner'', ''cloud_provider'', ''region'', ''status'']"

text \<open>The Cluster Resolver's predicate: one equality clause per identifier.\<close>

definition idClause :: "string \<Rightarrow> string" where
  "idClause c = ''id = '' @ [CHR 0x27] @ c @ [CHR 0x27]"

subsection \<open>Names for parts of an invocation\<close>

text \<open>The cluster identifiers the instances of a page refer to.\<close>

definition clusterRefs :: "KafkaRequest list \<Rightarrow> string set" where
  "clusterRefs kafkas = set (List.map_filter GetClusterId kafkas)"

text \<open>Go's \<^verbatim>\<open>range\<close> over a map visits every key once, in some order.\<close>

definition visitsEachKeyOnce :: "environment \<Rightarrow> bool" where
  "visitsEachKeyOnce f = (\<forall>keys. mset (mapRange f keys) = mset keys)"

text \<open>The identifiers in the order \<^verbatim>\<open>createSearchString\<close> writes their clauses.\<close>

definition lookupIds :: "environment \<Rightarrow> KafkaRequest list \<Rightarrow> string list" where
  "lookupIds f kafkas = mapRange f (collectClusterIds kafkas [])"

text \<open>
  The request \<^verbatim>\<open>getClusterIdMapFromKafkas\<close> sends for a page that refers to a cluster,
  and the cluster-management API's answer to it.
\<close>

definition lookupRequest :: "environment \<Rightarrow> options \<Rightarrow> KafkaRequest list \<Rightarrow> event" where
  "lookupRequest f opts kafkas =
     ClusterListRequest (clusterManagementApiUrl opts) (accessToken opts)
       (createSearchString f (collectClusterIds kafkas [])) (DefaultPageNumber f)
       (int (length (collectClusterIds kafkas [])))"

definition lookupResult ::
  "environment \<Rightarrow> options \<Rightarrow> KafkaRequest list \<Rightarrow> goerror + Cluster list" where
  "lookupResult f opts kafkas =
     GetClusterListWithSearchParams f (clusterManagementApiUrl opts) (accessToken opts)
       (createSearchString f (collectClusterIds kafkas [])) (DefaultPageNumber f)
       (int (length (collectClusterIds kafkas [])))"

text \<open>
  An instance record that holds the six fields the spec's data model gives every instance;
  \<^verbatim>\<open>mapResponseItemsToRows\<close> dereferences them without a nil test.
\<close>

definition fieldsPresent :: "KafkaRequest \<Rightarrow> bool" where
  "fieldsPresent k =
     (GetId k \<noteq> None \<and> GetName k \<noteq> None \<and> GetOwner k \<noteq> None \<and> GetStatus k \<noteq> None
      \<and> GetCloudProvider k \<noteq> None \<and> GetRegion k \<noteq> None)"

definition currentMarker :: "environment \<Rightarrow> string" where
  "currentMarker f = Emoji f checkMark ''(current)''"

definition hostedLabel :: "environment \<Rightarrow> string" where
  "hostedLabel f = MustLocalize f ''kafka.list.output.openshiftCluster.redhat'' []"

definition clusterLabel :: "Cluster option \<Rightarrow> string" where
  "clusterLabel cluster = Cluster_Name cluster @ '' ('' @ Cluster_ID cluster @ '')''"

text \<open>
  The provider \<^verbatim>\<open>runList\<close> builds from the connection's access token, and the adapter
  it hands to the generated client.
\<close>

definition providerOf :: "APIConnection \<Rightarrow> BaseBearerTokenAuthenticationProvider option" where
  "providerOf conn =
     NewBaseBearerTokenAuthenticationProvider (RedHatAccessTokenProvider (AccessToken conn))"

definition adapterOf :: "APIConnection \<Rightarrow> RequestAdapter option" where
  "adapterOf conn = fst (NewNetHttpRequestAdapter (providerOf conn))"

text \<open>
  The events of \<^verbatim>\<open>runList\<close> up to and including the request for the instances. The
  line "Error creating request adapter" is not among them: the provider handed to
  \<^verbatim>\<open>NewNetHttpRequestAdapter\<close> is never nil, so the construction succeeds.
\<close>

definition fetchEvents :: "environment \<Rightarrow> options \<Rightarrow> APIConnection \<Rightarrow> event list" where
  "fetchEvents f opts conn =
     (if search opts \<noteq> []
      then [Debug (MustLocalize f ''kafka.list.log.debug.filteringKafkaList''
                     [(''Search'', buildQuery (search opts))])]
      else [])
     @ [Printf (''+++ Using Kiota client'' @ [CHR 0x0A]),
        KafkasGetRequest (adapterOf conn) None]"

fun isInfo :: "event \<Rightarrow> bool" where
  "isInfo (Info m) = True"
| "isInfo e = False"

fun isRendering :: "event \<Rightarrow> bool" where
  "isRendering (TableOut rows) = True"
| "isRendering (FormattedOut format response) = True"
| "isRendering e = False"

fun isRequest :: "event \<Rightarrow> bool" where
  "isRequest (KafkasGetRequest adapter config) = True"
| "isRequest (ClusterListRequest url token search' page' size') = True"
| "isRequest e = False"

fun isClusterListRequest :: "event \<Rightarrow> bool" where
  "isClusterListRequest (ClusterListRequest url token search' page' size') = True"
| "isClusterListRequest e = False"

fun isKafkasGetRequest :: "event \<Rightarrow> bool" where
  "isKafkasGetRequest (KafkasGetRequest adapter config) = True"
| "isKafkasGetRequest e = False"

subsection \<open>Concrete inputs\<close>

text \<open>
  The example of the spec's section 8: three instances, two on cluster c1 and one hosted
  by the service, cluster c1 named prod-cluster, and k2 the active selection.
\<close>

definition exampleKafka :: "string \<Rightarrow> string \<Rightarrow> string option \<Rightarrow> KafkaRequest" where
  "exampleKafka id' name cluster =
     \<lparr>GetId = Some id', GetName = Some name, GetOwner = Some ''ada'',
      GetStatus = Some ''ready'', GetCloudProvider = Some ''aws'',
      GetRegion = Some ''us-east-1'', GetClusterId = cluster\<rparr>"

definition examplePage :: "KafkaRequest list" where
  "examplePage = [exampleKafka ''k1'' ''alpha'' (Some ''c1''),
                  exampleKafka ''k2'' ''beta'' (Some ''c1''),
                  exampleKafka ''k3'' ''gamma'' None]"

definition widePage :: "KafkaRequest list" where
  "widePage = examplePage @ [exampleKafka ''k4'' ''delta'' (Some ''c2'')]"

definition prodCluster :: Cluster where
  "prodCluster = \<lparr>cluster_id = ''c1'', cluster_name = ''prod-cluster''\<rparr>"

definition exampleEnv :: environment where
  "exampleEnv =
     \<lparr>Connection = Inr \<lparr>AccessToken = ''token''\<rparr>,
      KafkasGet = (\<lambda>adapter config. Inr \<lparr>GetItems = examplePage\<rparr>),
      GetClusterListWithSearchParams = (\<lambda>url token search' page' size'. Inr [prodCluster]),
      ServiceContextLoad = Inr (ServiceContext 0),
      GetCurrentContext = (\<lambda>svcContext. Inr \<lparr>KafkaID = ''k2''\<rparr>),
      MustLocalize = (\<lambda>key entries. key),
      Emoji = (\<lambda>emoji fallback. fallback),
      Formatted = (\<lambda>format response. None),
      DefaultPageNumber = 1,
      mapRange = rev\<rparr>"

definition exampleAdapter :: RequestAdapter where
  "exampleAdapter =
     NetHttpRequestAdapter
       (BaseBearerTokenAuthenticationProvider (RedHatAccessTokenProvider ''token''))"

definition exampleOptions :: options where
  "exampleOptions =
     \<lparr>outputFormat = [], page = 1, limit = 10, search = [], accessToken = ''secret'',
      clusterManagementApiUrl = ''https://api.example''\<rparr>"

definition exampleRow :: "string \<Rightarrow> string \<Rightarrow> string \<Rightarrow> kafkaRow" where
  "exampleRow id' name cluster =
     \<lparr>ID = id', Name = name, Owner = ''ada'', Status = ''ready'', CloudProvider = ''aws'',
      Region = ''us-east-1'', OpenshiftCluster = cluster\<rparr>"

text \<open>A second page of one instance, asked for in JSON with a search term.\<close>

definition pagedOptions :: options where
  "pagedOptions =
     exampleOptions\<lparr>outputFormat := ''json'', page := 2, limit := 1, search := ''alpha''\<rparr>"

text \<open>Collaborators that fail, one in each environment.\<close>

definition connectionDownEnv :: environment where
  "connectionDownEnv = exampleEnv\<lparr>Connection := Inl (GoError ''not logged in'')\<rparr>"

definition fetchDownEnv :: environment where
  "fetchDownEnv =
     exampleEnv\<lparr>KafkasGet := (\<lambda>adapter config. Inl (GoError ''401 Unauthorized''))\<rparr>"

definition sessionDownEnv :: environment where
  "sessionDownEnv = exampleEnv\<lparr>ServiceContextLoad := Inl (GoError ''context unreadable'')\<rparr>"

definition contextDownEnv :: environment where
  "contextDownEnv =
     exampleEnv\<lparr>GetCurrentContext := (\<lambda>svcContext. Inl (GoError ''no current context''))\<rparr>"

definition renderDownEnv :: environment where
  "renderDownEnv =
     exampleEnv\<lparr>Formatted := (\<lambda>format response. Some (GoError ''broken pipe''))\<rparr>"

text \<open>An instance that refers to a cluster and holds no owner.\<close>

definition ownerlessKafka :: KafkaRequest where
  "ownerlessKafka = (exampleKafka ''k5'' ''epsilon'' (Some ''c1''))\<lparr>GetOwner := None\<rparr>"

text \<open>The cluster-management API answers, but knows none of the clusters asked for.\<close>

definition missEnv :: environment where
  "missEnv =
     exampleEnv\<lparr>GetClusterListWithSearchParams :=
                  (\<lambda>url token search' page' size'. Inr [])\<rparr>"

text \<open>The cluster-management API fails.\<close>

definition lookupDownEnv :: environment where
  "lookupDownEnv =
     exampleEnv\<lparr>GetClusterListWithSearchParams :=
                  (\<lambda>url token search' page' size'. Inl (GoError ''unreachable''))\<rparr>"

text \<open>The instance-management API returns an empty page.\<close>

definition emptyPageEnv :: environment where
  "emptyPageEnv = exampleEnv\<lparr>KafkasGet := (\<lambda>adapter config. Inr \<lparr>GetItems = []\<rparr>)\<rparr>"

text \<open>An instance whose identifier is "-", and a session with no selected instance.\<close>

definition dashEnv :: environment where
  "dashEnv =
     exampleEnv\<lparr>KafkasGet :=
                  (\<lambda>adapter config. Inr \<lparr>GetItems = [exampleKafka ''-'' ''alpha'' None]\<rparr>),
                GetCurrentContext := (\<lambda>svcContext. Inr \<lparr>KafkaID = []\<rparr>)\<rparr>"

section \<open>Lemmas\<close>

lemmas example_defs = exampleEnv_def exampleOptions_def examplePage_def exampleKafka_def
  prodCluster_def exampleRow_def widePage_def pagedOptions_def exampleAdapter_def
  missEnv_def lookupDownEnv_def emptyPageEnv_def dashEnv_def connectionDownEnv_def
  fetchDownEnv_def sessionDownEnv_def contextDownEnv_def renderDownEnv_def
  ownerlessKafka_def

lemmas run_defs = runList_def Let_def getClusterIdMapFromKafkas_def
  createSearchString_def setInsert_def EmptyFormat_def rowOf_def andThen_def deref_def
  Cluster_ID_def Cluster_Name_def checkMark_def buildQuery_def
  NewNetHttpRequestAdapter_def NewBaseBearerTokenAuthenticationProvider_def

lemma joinOr_Cons: "joinOr (c # cs) = c @ concat (map (\<lambda>d. '' or '' @ d) cs)"
  by (induction cs arbitrary: c) auto

lemma createSearchLoop_later:
  "0 < n \<Longrightarrow> createSearchLoop ids s n = s @ concat (map (\<lambda>d. '' or '' @ idClause d) ids)"
  by (induction ids arbitrary: s n) (auto simp: idClause_def)

lemma createSearchLoop_joinOr: "createSearchLoop ids [] 0 = joinOr (map idClause ids)"
proof (cases ids)
  case Nil
  then show ?thesis by simp
next
  case (Cons c cs)
  have "createSearchLoop (c # cs) [] 0 = createSearchLoop cs (idClause c) 1"
    by (simp add: idClause_def)
  also have "\<dots> = idClause c @ concat (map (\<lambda>d. '' or '' @ idClause d) cs)"
    by (simp add: createSearchLoop_later)
  also have "\<dots> = joinOr (map idClause (c # cs))"
    by (simp add: joinOr_Cons comp_def)
  finally show ?thesis using Cons by simp
qed

lemma setInsert_distinct: "distinct m \<Longrightarrow> distinct (setInsert k m)"
  by (simp add: setInsert_def)

lemma setInsert_set: "set (setInsert k m) = insert k (set m)"
  by (auto simp: setInsert_def)

lemma collectClusterIds_distinct:
  "distinct m \<Longrightarrow> distinct (collectClusterIds kafkas m)"
  by (induction kafkas arbitrary: m) (auto simp: setInsert_distinct split: option.splits)

lemma collectClusterIds_set:
  "set (collectClusterIds kafkas m) = set m \<union> clusterRefs kafkas"
  by (induction kafkas arbitrary: m)
     (auto simp: setInsert_set clusterRefs_def List.map_filter_simps split: option.splits)

lemma idClause_inj: "(idClause c = idClause d) = (c = d)"
  by (simp add: idClause_def)

lemma count_list_distinct_map:
  "distinct xs \<Longrightarrow> inj g \<Longrightarrow> x \<in> set xs \<Longrightarrow> count_list (map g xs) (g x) = 1"
  by (induction xs) (auto simp: inj_def count_list_0_iff)

lemma lookupIds_distinct: "visitsEachKeyOnce f \<Longrightarrow> distinct (lookupIds f kafkas)"
proof -
  assume v: "visitsEachKeyOnce f"
  have "mset (lookupIds f kafkas) = mset (collectClusterIds kafkas [])"
    using v by (simp add: visitsEachKeyOnce_def lookupIds_def)
  moreover have "distinct (collectClusterIds kafkas [])"
    by (simp add: collectClusterIds_distinct)
  ultimately show ?thesis by (metis mset_eq_imp_distinct_iff)
qed

lemma lookupIds_set: "visitsEachKeyOnce f \<Longrightarrow> set (lookupIds f kafkas) = clusterRefs kafkas"
proof -
  assume v: "visitsEachKeyOnce f"
  have "mset (lookupIds f kafkas) = mset (collectClusterIds kafkas [])"
    using v by (simp add: visitsEachKeyOnce_def lookupIds_def)
  then have "set (lookupIds f kafkas) = set (collectClusterIds kafkas [])"
    by (rule mset_eq_setD)
  then show ?thesis by (simp add: collectClusterIds_set)
qed

lemma collect_empty_iff: "(collectClusterIds kafkas [] = []) = (clusterRefs kafkas = {})"
  using collectClusterIds_set [of kafkas "[]"] by auto

lemma resolver_no_refs:
  "clusterRefs kafkas = {} \<Longrightarrow> getClusterIdMapFromKafkas f opts kafkas = ([], Inr Map.empty)"
  by (simp add: getClusterIdMapFromKafkas_def collect_empty_iff)

lemma resolver_refs:
  "clusterRefs kafkas \<noteq> {} \<Longrightarrow>
   getClusterIdMapFromKafkas f opts kafkas =
     ([lookupRequest f opts kafkas],
      case lookupResult f opts kafkas of
        Inl err \<Rightarrow> Inl err
      | Inr clusterList \<Rightarrow> Inr (indexClusters clusterList Map.empty))"
  by (simp add: getClusterIdMapFromKafkas_def collect_empty_iff Let_def lookupRequest_def
        lookupResult_def)

lemma indexClusters_dom: "dom (indexClusters clusters m) = dom m \<union> cluster_id ` set clusters"
  by (induction clusters arbitrary: m) (auto simp: Cluster_ID_def)

lemma indexClusters_entry:
  "indexClusters clusters m c = Some cl \<Longrightarrow>
   m c = Some cl \<or> (cl \<in> set clusters \<and> cluster_id cl = c)"
proof (induction clusters arbitrary: m)
  case Nil
  then show ?case by simp
next
  case (Cons a clusters)
  from Cons.prems have "indexClusters clusters (m(cluster_id a \<mapsto> a)) c = Some cl"
    by (simp add: Cluster_ID_def)
  from Cons.IH [OF this] show ?case
    by (cases "c = cluster_id a") auto
qed

lemma rowOf_Inr:
  "rowOf f k sel idx = Inr row \<Longrightarrow>
   GetId k = Some (ID row) \<and> GetOwner k = Some (Owner row) \<and> GetStatus k = Some (Status row)
   \<and> GetCloudProvider k = Some (CloudProvider row) \<and> GetRegion k = Some (Region row)
   \<and> (\<exists>name. GetName k = Some name
          \<and> Name row = (if ID row = sel then name @ '' '' @ currentMarker f else name))
   \<and> OpenshiftCluster row =
        (case GetClusterId k of Some c \<Rightarrow> clusterLabel (idx c) | None \<Rightarrow> hostedLabel f)"
  by (auto simp: rowOf_def andThen_def deref_def Let_def currentMarker_def hostedLabel_def
        clusterLabel_def split: option.splits)

lemma rowOf_total: "fieldsPresent k \<Longrightarrow> \<exists>row. rowOf f k sel idx = Inr row"
  by (auto simp: rowOf_def andThen_def deref_def Let_def fieldsPresent_def)

lemma rows_pointwise:
  "mapResponseItemsToRows f kafkas sel idx = Inr rows \<Longrightarrow>
   length rows = length kafkas
   \<and> (\<forall>i < length kafkas. rowOf f (kafkas ! i) sel idx = Inr (rows ! i))"
proof (induction kafkas arbitrary: rows)
  case Nil
  then show ?case by simp
next
  case (Cons k kafkas)
  from Cons.prems obtain row rest where
    r: "rowOf f k sel idx = Inr row" and
    m: "mapResponseItemsToRows f kafkas sel idx = Inr rest" and
    e: "rows = row # rest"
    by (auto simp: andThen_def split: sum.splits)
  from Cons.IH [OF m] r e show ?case
    by (auto simp: nth_Cons split: nat.splits)
qed

lemma rows_total:
  "list_all fieldsPresent kafkas \<Longrightarrow> \<exists>rows. mapResponseItemsToRows f kafkas sel idx = Inr rows"
proof (induction kafkas)
  case Nil
  then show ?case by simp
next
  case (Cons k kafkas)
  then obtain rows where m: "mapResponseItemsToRows f kafkas sel idx = Inr rows" by auto
  from Cons.prems obtain row where r: "rowOf f k sel idx = Inr row"
    using rowOf_total [of k f sel idx] by auto
  from m r show ?case by (simp add: andThen_def)
qed

lemma fetchEvents_no_info: "filter isInfo (fetchEvents f opts conn) = []"
  by (simp add: fetchEvents_def)

lemma fetchEvents_no_rendering: "filter isRendering (fetchEvents f opts conn) = []"
  by (simp add: fetchEvents_def)

lemma fetchEvents_requests:
  "filter isRequest (fetchEvents f opts conn) = [KafkasGetRequest (adapterOf conn) None]"
  by (simp add: fetchEvents_def)

lemma runList_connection_failed:
  "Connection f = Inl err \<Longrightarrow> runList f opts = ([], Inr (Some err))"
  by (simp add: runList_def)

lemma runList_fetch_failed:
  "Connection f = Inr conn \<Longrightarrow> KafkasGet f (adapterOf conn) None = Inl err \<Longrightarrow>
   runList f opts = (fetchEvents f opts conn, Inr (Some err))"
  by (simp add: runList_def Let_def adapterOf_def providerOf_def fetchEvents_def case_prod_unfold
        NewNetHttpRequestAdapter_def NewBaseBearerTokenAuthenticationProvider_def)

lemma runList_no_instances:
  "Connection f = Inr conn \<Longrightarrow> KafkasGet f (adapterOf conn) None = Inr resp \<Longrightarrow>
   GetItems resp = [] \<Longrightarrow> outputFormat opts = [] \<Longrightarrow>
   runList f opts =
     (fetchEvents f opts conn
        @ [Info (MustLocalize f ''kafka.common.log.info.noKafkaInstances'' [])], Inr None)"
  by (simp add: runList_def Let_def adapterOf_def providerOf_def fetchEvents_def case_prod_unfold
        NewNetHttpRequestAdapter_def NewBaseBearerTokenAuthenticationProvider_def)

lemma runList_lookup_failed:
  "Connection f = Inr conn \<Longrightarrow> KafkasGet f (adapterOf conn) None = Inr resp \<Longrightarrow>
   GetItems resp \<noteq> [] \<or> outputFormat opts \<noteq> [] \<Longrightarrow>
   getClusterIdMapFromKafkas f opts (GetItems resp) = (ev4, Inl err) \<Longrightarrow>
   runList f opts = (fetchEvents f opts conn @ ev4, Inr (Some err))"
  by (simp add: runList_def Let_def adapterOf_def providerOf_def fetchEvents_def case_prod_unfold
        NewNetHttpRequestAdapter_def NewBaseBearerTokenAuthenticationProvider_def)

lemma runList_structured:
  "Connection f = Inr conn \<Longrightarrow> KafkasGet f (adapterOf conn) None = Inr resp \<Longrightarrow>
   outputFormat opts \<noteq> [] \<Longrightarrow>
   getClusterIdMapFromKafkas f opts (GetItems resp) = (ev4, Inr clusterIdMap) \<Longrightarrow>
   runList f opts =
     (fetchEvents f opts conn @ ev4 @ [FormattedOut (outputFormat opts) resp],
      Inr (Formatted f (outputFormat opts) resp))"
  by (simp add: runList_def Let_def adapterOf_def providerOf_def fetchEvents_def EmptyFormat_def
        case_prod_unfold NewNetHttpRequestAdapter_def
        NewBaseBearerTokenAuthenticationProvider_def)

lemma runList_table:
  "Connection f = Inr conn \<Longrightarrow> KafkasGet f (adapterOf conn) None = Inr resp \<Longrightarrow>
   outputFormat opts = [] \<Longrightarrow> GetItems resp \<noteq> [] \<Longrightarrow>
   getClusterIdMapFromKafkas f opts (GetItems resp) = (ev4, Inr clusterIdMap) \<Longrightarrow>
   runList f opts =
     (case ServiceContextLoad f of
        Inl err \<Rightarrow> (fetchEvents f opts conn @ ev4, Inr (Some err))
      | Inr svcContext \<Rightarrow>
          (case GetCurrentContext f svcContext of
             Inl err \<Rightarrow> (fetchEvents f opts conn @ ev4, Inr (Some err))
           | Inr currCtx \<Rightarrow>
               (case mapResponseItemsToRows f (GetItems resp)
                       (if KafkaID currCtx \<noteq> [] then KafkaID currCtx else ''-'')
                       clusterIdMap of
                  Inl panic \<Rightarrow> (fetchEvents f opts conn @ ev4, Inl panic)
                | Inr rows \<Rightarrow>
                    (fetchEvents f opts conn @ ev4 @ [TableOut rows, Info []], Inr None))))"
  by (simp add: runList_def Let_def adapterOf_def providerOf_def fetchEvents_def EmptyFormat_def
        case_prod_unfold NewNetHttpRequestAdapter_def
        NewBaseBearerTokenAuthenticationProvider_def split: sum.splits)

lemma resolver_events_no_fetch:
  "filter isKafkasGetRequest (fst (getClusterIdMapFromKafkas f opts kafkas)) = []"
  by (simp add: getClusterIdMapFromKafkas_def Let_def)

lemma fetchEvents_fetch:
  "filter isKafkasGetRequest (fetchEvents f opts conn) = [KafkasGetRequest (adapterOf conn) None]"
  by (simp add: fetchEvents_def)

lemma runList_one_fetch_without_configuration:
  "filter isKafkasGetRequest (fst (runList f opts)) =
     (case Connection f of Inl err \<Rightarrow> []
      | Inr conn \<Rightarrow> [KafkasGetRequest (adapterOf conn) None])"
proof (cases "Connection f")
  case (Inl err)
  then show ?thesis by (simp add: runList_connection_failed)
next
  case (Inr conn)
  note c = Inr
  show ?thesis
  proof (cases "KafkasGet f (adapterOf conn) None")
    case (Inl err)
    from runList_fetch_failed [OF c Inl] c show ?thesis by (simp add: fetchEvents_fetch)
  next
    case (Inr resp)
    note k = Inr
    show ?thesis
    proof (cases "GetItems resp = [] \<and> outputFormat opts = []")
      case True
      then have "runList f opts =
        (fetchEvents f opts conn
          @ [Info (MustLocalize f ''kafka.common.log.info.noKafkaInstances'' [])], Inr None)"
        using runList_no_instances [OF c k] by simp
      with c show ?thesis by (simp add: fetchEvents_fetch)
    next
      case False
      obtain ev4 res where g: "getClusterIdMapFromKafkas f opts (GetItems resp) = (ev4, res)"
        by (cases "getClusterIdMapFromKafkas f opts (GetItems resp)")
      have e: "filter isKafkasGetRequest ev4 = []"
        using resolver_events_no_fetch [of f opts "GetItems resp"] g by simp
      show ?thesis
      proof (cases res)
        case (Inl err)
        from False have "GetItems resp \<noteq> [] \<or> outputFormat opts \<noteq> []" by simp
        from runList_lookup_failed [OF c k this] g Inl c e show ?thesis
          by (simp add: fetchEvents_fetch)
      next
        case (Inr clusterIdMap)
        show ?thesis
        proof (cases "outputFormat opts = []")
          case True
          with False have "GetItems resp \<noteq> []" by simp
          from runList_table [OF c k True this] g Inr c e show ?thesis
            by (simp add: fetchEvents_fetch split: sum.splits)
        next
          case False
          from runList_structured [OF c k False] g Inr c e show ?thesis
            by (simp add: fetchEvents_fetch)
        qed
      qed
    qed
  qed
qed

lemma adapter_construction_succeeds:
  "NewNetHttpRequestAdapter (providerOf conn) = (adapterOf conn, None) \<and> adapterOf conn \<noteq> None"
  by (simp add: adapterOf_def providerOf_def NewNetHttpRequestAdapter_def
        NewBaseBearerTokenAuthenticationProvider_def)

lemma fetchEvents_no_lookup: "filter isClusterListRequest (fetchEvents f opts conn) = []"
  by (simp add: fetchEvents_def)

lemma resolver_events_at_most_one:
  "length (filter isClusterListRequest (fst (getClusterIdMapFromKafkas f opts kafkas))) \<le> 1"
  by (simp add: getClusterIdMapFromKafkas_def Let_def)

lemma runList_one_fetch_at_most:
  "length (filter isKafkasGetRequest (fst (runList f opts))) \<le> 1"
  by (simp add: runList_one_fetch_without_configuration split: sum.splits)

lemma runList_one_lookup_at_most:
  "length (filter isClusterListRequest (fst (runList f opts))) \<le> 1"
proof (cases "Connection f")
  case (Inl err)
  then show ?thesis by (simp add: runList_connection_failed)
next
  case (Inr conn)
  note c = Inr
  show ?thesis
  proof (cases "KafkasGet f (adapterOf conn) None")
    case (Inl err)
    from runList_fetch_failed [OF c Inl] show ?thesis by (simp add: fetchEvents_no_lookup)
  next
    case (Inr resp)
    note k = Inr
    show ?thesis
    proof (cases "GetItems resp = [] \<and> outputFormat opts = []")
      case True
      then have "runList f opts =
        (fetchEvents f opts conn
          @ [Info (MustLocalize f ''kafka.common.log.info.noKafkaInstances'' [])], Inr None)"
        using runList_no_instances [OF c k] by simp
      then show ?thesis by (simp add: fetchEvents_no_lookup)
    next
      case False
      obtain ev4 res where g: "getClusterIdMapFromKafkas f opts (GetItems resp) = (ev4, res)"
        by (cases "getClusterIdMapFromKafkas f opts (GetItems resp)")
      have e: "length (filter isClusterListRequest ev4) \<le> 1"
        using resolver_events_at_most_one [of f opts "GetItems resp"] g by simp
      show ?thesis
      proof (cases res)
        case (Inl err)
        from False have "GetItems resp \<noteq> [] \<or> outputFormat opts \<noteq> []" by simp
        from runList_lookup_failed [OF c k this] g Inl e show ?thesis
          by (simp add: fetchEvents_no_lookup)
      next
        case (Inr clusterIdMap)
        show ?thesis
        proof (cases "outputFormat opts = []")
          case True
          with False have "GetItems resp \<noteq> []" by simp
          from runList_table [OF c k True this] g Inr e show ?thesis
            by (simp add: fetchEvents_no_lookup split: sum.splits)
        next
          case False
          from runList_structured [OF c k False] g Inr e show ?thesis
            by (simp add: fetchEvents_no_lookup)
        qed
      qed
    qed
  qed
qed

section \<open>The claims\<close>

subsection \<open>Instance Fetcher\<close>

text \<open>
  C1. The claim has the one request to the instance-management API carry the caller's page
  number, page size and (for a search term that is not empty) the Query Builder's predicate.
  \<^verbatim>\<open>runList\<close> does set all three on the older client's request \<^verbatim>\<open>a\<close>, but never
  sends \<^verbatim>\<open>a\<close>: the request it sends is the generated client's \<^verbatim>\<open>Get(ctx, nil)\<close>.
  Asked for page 2 of size 1 with the search term alpha, the invocation sends a request with
  no configuration at all, and renders the three instances the API answers with; the
  request that was built and dropped held page 2, size 1 and the predicate.
\<close>

theorem fetch_request_drops_page_size_search:
  "runList exampleEnv pagedOptions =
     ([Debug ''kafka.list.log.debug.filteringKafkaList'',
       Printf (''+++ Using Kiota client'' @ [CHR 0x0A]),
       KafkasGetRequest (Some exampleAdapter) None,
       ClusterListRequest ''https://api.example'' ''secret''
         (''id = '' @ [CHR 0x27] @ ''c1'' @ [CHR 0x27]) 1 1,
       FormattedOut ''json'' \<lparr>GetItems = examplePage\<rparr>],
      Inr None)
   \<and> Search (Size (Page GetKafkas (Itoa (page pagedOptions))) (Itoa (limit pagedOptions)))
        (buildQuery (search pagedOptions))
       = \<lparr>req_page = Some ''2'', req_size = Some ''1'',
          req_search = Some (''name like %alpha% or owner like %alpha% or ''
            @ ''cloud_provider like %alpha% or region like %alpha% or status like %alpha%'')\<rparr>"
proof -
  have p: "Itoa 2 = ''2''" and s: "Itoa 1 = ''1''"
    by code_simp+
  show ?thesis
    by (simp add: example_defs run_defs GetKafkas_def Page_def Size_def Search_def p s)
qed


subsection \<open>Cluster Resolver\<close>

text \<open>
  C2. Go's \<^verbatim>\<open>range\<close> visiting every key of the set once, the Cluster Resolver looks up each
  cluster identifier the page refers to once: the identifiers of the request are distinct,
  they are exactly the identifiers referred to, each has exactly one clause among the
  clauses the search string joins with "or", and these clauses make the single request
  sent, sized to the number of distinct identifiers. When no instance refers to a cluster,
  no request is sent and the index returned is empty.
\<close>

theorem cluster_lookup_deduplicated:
  assumes "visitsEachKeyOnce f"
  shows "distinct (lookupIds f kafkas) \<and> set (lookupIds f kafkas) = clusterRefs kafkas
     \<and> (\<forall>c \<in> clusterRefs kafkas.
          count_list (map idClause (lookupIds f kafkas)) (idClause c) = 1)
     \<and> (clusterRefs kafkas \<noteq> {} \<longrightarrow>
          fst (getClusterIdMapFromKafkas f opts kafkas) =
            [ClusterListRequest (clusterManagementApiUrl opts) (accessToken opts)
               (joinOr (map idClause (lookupIds f kafkas))) (DefaultPageNumber f)
               (int (card (clusterRefs kafkas)))])
     \<and> (clusterRefs kafkas = {} \<longrightarrow>
          getClusterIdMapFromKafkas f opts kafkas = ([], Inr Map.empty))"
proof -
  have d: "distinct (lookupIds f kafkas)" using assms by (rule lookupIds_distinct)
  have s: "set (lookupIds f kafkas) = clusterRefs kafkas" using assms by (rule lookupIds_set)
  have cs: "set (collectClusterIds kafkas []) = clusterRefs kafkas"
    by (simp add: collectClusterIds_set)
  have len: "length (collectClusterIds kafkas []) = card (clusterRefs kafkas)"
    using cs collectClusterIds_distinct [of "[]" kafkas] distinct_card by fastforce
  have one: "\<forall>c \<in> clusterRefs kafkas.
          count_list (map idClause (lookupIds f kafkas)) (idClause c) = 1"
  proof
    fix c assume "c \<in> clusterRefs kafkas"
    then have m: "c \<in> set (lookupIds f kafkas)" using s by simp
    have i: "inj idClause" by (simp add: inj_def idClause_inj)
    show "count_list (map idClause (lookupIds f kafkas)) (idClause c) = 1"
      using d i m by (rule count_list_distinct_map)
  qed
  have req: "clusterRefs kafkas \<noteq> {} \<longrightarrow>
          fst (getClusterIdMapFromKafkas f opts kafkas) =
            [ClusterListRequest (clusterManagementApiUrl opts) (accessToken opts)
               (joinOr (map idClause (lookupIds f kafkas))) (DefaultPageNumber f)
               (int (card (clusterRefs kafkas)))]"
  proof
    assume "clusterRefs kafkas \<noteq> {}"
    then have "collectClusterIds kafkas [] \<noteq> []" using cs by auto
    then show "fst (getClusterIdMapFromKafkas f opts kafkas) =
            [ClusterListRequest (clusterManagementApiUrl opts) (accessToken opts)
               (joinOr (map idClause (lookupIds f kafkas))) (DefaultPageNumber f)
               (int (card (clusterRefs kafkas)))]"
      by (simp add: getClusterIdMapFromKafkas_def Let_def createSearchString_def
            createSearchLoop_joinOr lookupIds_def len)
  qed
  have none: "clusterRefs kafkas = {} \<longrightarrow>
          getClusterIdMapFromKafkas f opts kafkas = ([], Inr Map.empty)"
  proof
    assume "clusterRefs kafkas = {}"
    then have "collectClusterIds kafkas [] = []" using cs by auto
    then show "getClusterIdMapFromKafkas f opts kafkas = ([], Inr Map.empty)"
      by (simp add: getClusterIdMapFromKafkas_def)
  qed
  from d s one req none show ?thesis by blast
qed

theorem cluster_lookup_deduplicated_witness:
  "visitsEachKeyOnce exampleEnv
   \<and> lookupIds exampleEnv widePage = [''c2'', ''c1'']
   \<and> count_list (map idClause (lookupIds exampleEnv widePage)) (idClause ''c1'') = 1
   \<and> fst (getClusterIdMapFromKafkas exampleEnv exampleOptions widePage) =
        [ClusterListRequest ''https://api.example'' ''secret''
           (''id = '' @ [CHR 0x27] @ ''c2'' @ [CHR 0x27] @ '' or id = '' @ [CHR 0x27] @ ''c1''
              @ [CHR 0x27]) 1 2]
   \<and> getClusterIdMapFromKafkas exampleEnv exampleOptions [exampleKafka ''k3'' ''gamma'' None]
        = ([], Inr Map.empty)"
proof -
  have h: "visitsEachKeyOnce exampleEnv"
    by (simp add: visitsEachKeyOnce_def exampleEnv_def)
  have r: "clusterRefs widePage = {''c1'', ''c2''}"
    by (auto simp: clusterRefs_def example_defs List.map_filter_simps)
  have e: "clusterRefs [exampleKafka ''k3'' ''gamma'' None] = {}"
    by (simp add: clusterRefs_def example_defs List.map_filter_simps)
  have l: "lookupIds exampleEnv widePage = [''c2'', ''c1'']"
    by (simp add: lookupIds_def example_defs setInsert_def)
  from cluster_lookup_deduplicated [OF h, of widePage exampleOptions]
       cluster_lookup_deduplicated [OF h, of "[exampleKafka ''k3'' ''gamma'' None]" exampleOptions]
       h r e l
  show ?thesis
    by (simp add: idClause_def exampleOptions_def exampleEnv_def)
qed

text \<open>
  C4, as the claim states it, fails: the cluster-management API may answer without the
  cluster asked for. Then the resolver returns, without an error, an index that has no
  entry for c1 although two instances of the page refer to c1, and the invocation goes on
  to print its table, or to render the page in the structured format, and returns nil.
\<close>

theorem incomplete_index_counterexample:
  "''c1'' \<in> clusterRefs examplePage
   \<and> getClusterIdMapFromKafkas missEnv exampleOptions examplePage =
       ([ClusterListRequest ''https://api.example'' ''secret''
           (''id = '' @ [CHR 0x27] @ ''c1'' @ [CHR 0x27]) 1 1],
        Inr Map.empty)
   \<and> runList missEnv exampleOptions =
       ([Printf (''+++ Using Kiota client'' @ [CHR 0x0A]),
         KafkasGetRequest (Some exampleAdapter) None,
         ClusterListRequest ''https://api.example'' ''secret''
           (''id = '' @ [CHR 0x27] @ ''c1'' @ [CHR 0x27]) 1 1,
         TableOut [exampleRow ''k1'' ''alpha'' '' ()'',
                   exampleRow ''k2'' ''beta (current)'' '' ()'',
                   exampleRow ''k3'' ''gamma'' ''kafka.list.output.openshiftCluster.redhat''],
         Info []],
        Inr None)
   \<and> runList missEnv pagedOptions =
       ([Debug ''kafka.list.log.debug.filteringKafkaList'',
         Printf (''+++ Using Kiota client'' @ [CHR 0x0A]),
         KafkasGetRequest (Some exampleAdapter) None,
         ClusterListRequest ''https://api.example'' ''secret''
           (''id = '' @ [CHR 0x27] @ ''c1'' @ [CHR 0x27]) 1 1,
         FormattedOut ''json'' \<lparr>GetItems = examplePage\<rparr>],
        Inr None)"
  by (simp add: clusterRefs_def List.map_filter_simps example_defs run_defs)

text \<open>
  C4, amended. With no cluster referred to, the resolver returns the empty index and sends
  nothing. Otherwise it sends its one request; it fails exactly with the error of that
  request; and when the request is answered, it returns the index of the clusters in the
  answer under their identifiers, so that a cluster identifier an instance refers to has an
  entry if and only if the answer holds a cluster with that identifier.
\<close>

theorem cluster_index_holds_what_lookup_returned:
  "(clusterRefs kafkas = {} \<longrightarrow>
      getClusterIdMapFromKafkas f opts kafkas = ([], Inr Map.empty))
   \<and> (clusterRefs kafkas \<noteq> {} \<longrightarrow>
        fst (getClusterIdMapFromKafkas f opts kafkas) = [lookupRequest f opts kafkas]
        \<and> (\<forall>err. lookupResult f opts kafkas = Inl err \<longrightarrow>
              snd (getClusterIdMapFromKafkas f opts kafkas) = Inl err)
        \<and> (\<forall>clusters. lookupResult f opts kafkas = Inr clusters \<longrightarrow>
              (\<exists>idx. snd (getClusterIdMapFromKafkas f opts kafkas) = Inr idx
                 \<and> dom idx = cluster_id ` set clusters
                 \<and> (\<forall>c cl. idx c = Some cl \<longrightarrow> cl \<in> set clusters \<and> cluster_id cl = c)
                 \<and> (\<forall>c \<in> clusterRefs kafkas.
                       (idx c \<noteq> None) = (c \<in> cluster_id ` set clusters)))))"
proof (intro conjI impI allI)
  assume "clusterRefs kafkas = {}"
  then show "getClusterIdMapFromKafkas f opts kafkas = ([], Inr Map.empty)"
    by (rule resolver_no_refs)
next
  assume "clusterRefs kafkas \<noteq> {}"
  then show "fst (getClusterIdMapFromKafkas f opts kafkas) = [lookupRequest f opts kafkas]"
    by (simp add: resolver_refs)
next
  fix err
  assume "clusterRefs kafkas \<noteq> {}" and "lookupResult f opts kafkas = Inl err"
  then show "snd (getClusterIdMapFromKafkas f opts kafkas) = Inl err"
    by (simp add: resolver_refs)
next
  fix clusters
  assume r: "clusterRefs kafkas \<noteq> {}" and l: "lookupResult f opts kafkas = Inr clusters"
  let ?idx = "indexClusters clusters Map.empty"
  have 1: "snd (getClusterIdMapFromKafkas f opts kafkas) = Inr ?idx"
    using r l by (simp add: resolver_refs)
  have 2: "dom ?idx = cluster_id ` set clusters"
    by (simp add: indexClusters_dom)
  have 3: "\<forall>c cl. ?idx c = Some cl \<longrightarrow> cl \<in> set clusters \<and> cluster_id cl = c"
    using indexClusters_entry [of clusters Map.empty] by auto
  have 4: "\<forall>c \<in> clusterRefs kafkas. (?idx c \<noteq> None) = (c \<in> cluster_id ` set clusters)"
    using 2 by (metis domIff)
  from 1 2 3 4
  show "\<exists>idx. snd (getClusterIdMapFromKafkas f opts kafkas) = Inr idx
          \<and> dom idx = cluster_id ` set clusters
          \<and> (\<forall>c cl. idx c = Some cl \<longrightarrow> cl \<in> set clusters \<and> cluster_id cl = c)
          \<and> (\<forall>c \<in> clusterRefs kafkas. (idx c \<noteq> None) = (c \<in> cluster_id ` set clusters))"
    by blast
qed

theorem cluster_index_holds_what_lookup_returned_witness:
  "clusterRefs examplePage \<noteq> {}
   \<and> clusterRefs [exampleKafka ''k3'' ''gamma'' None] = {}
   \<and> getClusterIdMapFromKafkas exampleEnv exampleOptions [exampleKafka ''k3'' ''gamma'' None]
        = ([], Inr Map.empty)
   \<and> lookupResult lookupDownEnv exampleOptions examplePage = Inl (GoError ''unreachable'')
   \<and> snd (getClusterIdMapFromKafkas lookupDownEnv exampleOptions examplePage)
        = Inl (GoError ''unreachable'')
   \<and> lookupResult exampleEnv exampleOptions examplePage = Inr [prodCluster]
   \<and> (\<exists>idx. snd (getClusterIdMapFromKafkas exampleEnv exampleOptions examplePage) = Inr idx
         \<and> dom idx = {''c1''} \<and> idx ''c1'' = Some prodCluster)"
proof -
  have r: "clusterRefs examplePage = {''c1''}"
    by (auto simp: clusterRefs_def example_defs List.map_filter_simps)
  have e: "clusterRefs [exampleKafka ''k3'' ''gamma'' None] = {}"
    by (simp add: clusterRefs_def example_defs List.map_filter_simps)
  have d: "lookupResult lookupDownEnv exampleOptions examplePage = Inl (GoError ''unreachable'')"
    by (simp add: lookupResult_def example_defs)
  have u: "lookupResult exampleEnv exampleOptions examplePage = Inr [prodCluster]"
    by (simp add: lookupResult_def example_defs)
  have i: "cluster_id prodCluster = ''c1''"
    by (simp add: prodCluster_def)
  have ne: "clusterRefs examplePage \<noteq> {}"
    using r by simp
  have 1: "getClusterIdMapFromKafkas exampleEnv exampleOptions
             [exampleKafka ''k3'' ''gamma'' None] = ([], Inr Map.empty)"
    using cluster_index_holds_what_lookup_returned
            [of "[exampleKafka ''k3'' ''gamma'' None]" exampleEnv exampleOptions] e
    by blast
  have 2: "snd (getClusterIdMapFromKafkas lookupDownEnv exampleOptions examplePage)
             = Inl (GoError ''unreachable'')"
    using cluster_index_holds_what_lookup_returned [of examplePage lookupDownEnv exampleOptions]
          ne d
    by blast
  have "\<exists>idx. snd (getClusterIdMapFromKafkas exampleEnv exampleOptions examplePage) = Inr idx
          \<and> dom idx = cluster_id ` set [prodCluster]
          \<and> (\<forall>c cl. idx c = Some cl \<longrightarrow> cl \<in> set [prodCluster] \<and> cluster_id cl = c)"
    using cluster_index_holds_what_lookup_returned [of examplePage exampleEnv exampleOptions]
          ne u
    by blast
  then obtain idx where
    3: "snd (getClusterIdMapFromKafkas exampleEnv exampleOptions examplePage) = Inr idx"
    and 4: "dom idx = cluster_id ` set [prodCluster]"
    and 5: "\<forall>c cl. idx c = Some cl \<longrightarrow> cl \<in> set [prodCluster] \<and> cluster_id cl = c"
    by blast
  from 4 i have 6: "dom idx = {''c1''}"
    by simp
  then have "''c1'' \<in> dom idx"
    by (rule ssubst) (rule singletonI)
  then obtain cl where 7: "idx ''c1'' = Some cl"
    by (auto simp: dom_def)
  with 5 have "cl \<in> set [prodCluster]"
    by blast
  then have "cl = prodCluster"
    by simp
  with 7 have 8: "idx ''c1'' = Some prodCluster"
    by (rule subst [rotated])
  from 3 6 8
  have g: "\<exists>idx. snd (getClusterIdMapFromKafkas exampleEnv exampleOptions examplePage) = Inr idx
         \<and> dom idx = {''c1''} \<and> idx ''c1'' = Some prodCluster"
    by blast
  from ne e 1 d 2 u g show ?thesis
    by blast
qed


subsection \<open>Query Builder\<close>

text \<open>
  C5. For every search term S, the predicate of \<^verbatim>\<open>buildQuery\<close> is the "or" of exactly
  five substring clauses, one for each of name, owner, cloud_provider, region and status,
  and each clause holds S as it was given, with nothing escaped.
\<close>

theorem buildQuery_five_like_clauses:
  "buildQuery S = joinOr (map (likeClause S) searchFields)
   \<and> length (map (likeClause S) searchFields) = 5
   \<and> map (likeClause S) searchFields =
       [''name like %'' @ S @ ''%'', ''owner like %'' @ S @ ''%'',
        ''cloud_provider like %'' @ S @ ''%'', ''region like %'' @ S @ ''%'',
        ''status like %'' @ S @ ''%'']"
  by (simp add: buildQuery_def likeClause_def searchFields_def)

subsection \<open>Row Projector\<close>

text \<open>
  C6, as the claim states it, fails in its second half: with no selected instance in the
  session \<^verbatim>\<open>runList\<close> passes "-" as the selected identifier, and an instance whose own
  identifier is "-" then gets the marker.
\<close>

theorem dash_instance_is_marked_counterexample:
  "mapResponseItemsToRows exampleEnv [exampleKafka ''-'' ''alpha'' None] ''-'' Map.empty
     = Inr [exampleRow ''-'' ''alpha (current)'' ''kafka.list.output.openshiftCluster.redhat'']
   \<and> runList dashEnv exampleOptions =
       ([Printf (''+++ Using Kiota client'' @ [CHR 0x0A]),
         KafkasGetRequest (Some exampleAdapter) None,
         TableOut [exampleRow ''-'' ''alpha (current)''
                     ''kafka.list.output.openshiftCluster.redhat''],
         Info []],
        Inr None)"
  by (simp add: example_defs run_defs)

text \<open>
  C6, amended. In every projected row the display name is the instance name with a space
  and the marker appended if the instance identifier equals the selected identifier given
  to the projector, and the bare instance name otherwise. When the selected identifier is
  the sentinel "-", a row therefore carries the marker exactly if its instance identifier
  is "-" itself.
\<close>

theorem current_marker_iff_selected:
  assumes "mapResponseItemsToRows f kafkas selectedId clusterIdMap = Inr rows"
      and "i < length kafkas"
  shows "\<exists>id' name. GetId (kafkas ! i) = Some id' \<and> GetName (kafkas ! i) = Some name
           \<and> (Name (rows ! i) = name @ '' '' @ currentMarker f) = (id' = selectedId)
           \<and> (Name (rows ! i) = name) = (id' \<noteq> selectedId)
           \<and> (selectedId = ''-'' \<longrightarrow>
                 (Name (rows ! i) = name @ '' '' @ currentMarker f) = (id' = ''-''))"
proof -
  from assms have "rowOf f (kafkas ! i) selectedId clusterIdMap = Inr (rows ! i)"
    using rows_pointwise by blast
  then show ?thesis
    by (auto dest!: rowOf_Inr split: if_splits)
qed

theorem current_marker_iff_selected_witness:
  "mapResponseItemsToRows exampleEnv examplePage ''k2'' Map.empty
     = Inr [exampleRow ''k1'' ''alpha'' '' ()'', exampleRow ''k2'' ''beta (current)'' '' ()'',
            exampleRow ''k3'' ''gamma'' ''kafka.list.output.openshiftCluster.redhat'']
   \<and> mapResponseItemsToRows exampleEnv examplePage ''-'' Map.empty
     = Inr [exampleRow ''k1'' ''alpha'' '' ()'', exampleRow ''k2'' ''beta'' '' ()'',
            exampleRow ''k3'' ''gamma'' ''kafka.list.output.openshiftCluster.redhat'']
   \<and> (1::nat) < length examplePage
   \<and> GetId (examplePage ! 1) = Some ''k2'' \<and> GetName (examplePage ! 1) = Some ''beta''
   \<and> currentMarker exampleEnv = ''(current)''"
proof -
  have a: "mapResponseItemsToRows exampleEnv examplePage ''k2'' Map.empty
     = Inr [exampleRow ''k1'' ''alpha'' '' ()'', exampleRow ''k2'' ''beta (current)'' '' ()'',
            exampleRow ''k3'' ''gamma'' ''kafka.list.output.openshiftCluster.redhat'']"
    by (simp add: example_defs run_defs)
  have b: "mapResponseItemsToRows exampleEnv examplePage ''-'' Map.empty
     = Inr [exampleRow ''k1'' ''alpha'' '' ()'', exampleRow ''k2'' ''beta'' '' ()'',
            exampleRow ''k3'' ''gamma'' ''kafka.list.output.openshiftCluster.redhat'']"
    by (simp add: example_defs run_defs)
  have n: "(1::nat) < length examplePage"
    by (simp add: examplePage_def)
  from current_marker_iff_selected [OF a n] current_marker_iff_selected [OF b n] a b n
  show ?thesis
    by (simp add: example_defs currentMarker_def)
qed

text \<open>
  C8. In every projected row, the cluster label of an instance that refers to a cluster is
  the result of looking that reference up in the index, formatted as name, space, and the
  identifier in parentheses (the name and identifier of the cluster found); the label of an
  instance that refers to no cluster is the localized hosted-by-the-service text, whatever
  the index holds.
\<close>

theorem cluster_label_of_row:
  assumes "mapResponseItemsToRows f kafkas selectedId clusterIdMap = Inr rows"
      and "i < length kafkas"
  shows "(\<forall>c. GetClusterId (kafkas ! i) = Some c \<longrightarrow>
            OpenshiftCluster (rows ! i) = clusterLabel (clusterIdMap c)
            \<and> (\<forall>cluster. clusterIdMap c = Some cluster \<longrightarrow>
                  OpenshiftCluster (rows ! i)
                    = cluster_name cluster @ '' ('' @ cluster_id cluster @ '')''))
         \<and> (GetClusterId (kafkas ! i) = None \<longrightarrow> OpenshiftCluster (rows ! i) = hostedLabel f)"
proof -
  from assms have "rowOf f (kafkas ! i) selectedId clusterIdMap = Inr (rows ! i)"
    using rows_pointwise by blast
  then show ?thesis
    by (auto dest!: rowOf_Inr simp: clusterLabel_def Cluster_Name_def Cluster_ID_def)
qed

theorem cluster_label_of_row_witness:
  "mapResponseItemsToRows exampleEnv examplePage ''k2'' [''c1'' \<mapsto> prodCluster]
     = Inr [exampleRow ''k1'' ''alpha'' ''prod-cluster (c1)'',
            exampleRow ''k2'' ''beta (current)'' ''prod-cluster (c1)'',
            exampleRow ''k3'' ''gamma'' ''kafka.list.output.openshiftCluster.redhat'']
   \<and> (0::nat) < length examplePage \<and> (2::nat) < length examplePage
   \<and> GetClusterId (examplePage ! 0) = Some ''c1''
   \<and> GetClusterId (examplePage ! 2) = None
   \<and> hostedLabel exampleEnv = ''kafka.list.output.openshiftCluster.redhat''"
proof -
  have a: "mapResponseItemsToRows exampleEnv examplePage ''k2'' [''c1'' \<mapsto> prodCluster]
     = Inr [exampleRow ''k1'' ''alpha'' ''prod-cluster (c1)'',
            exampleRow ''k2'' ''beta (current)'' ''prod-cluster (c1)'',
            exampleRow ''k3'' ''gamma'' ''kafka.list.output.openshiftCluster.redhat'']"
    by (simp add: example_defs run_defs)
  have n: "(0::nat) < length examplePage" and m: "(2::nat) < length examplePage"
    by (simp_all add: examplePage_def)
  from cluster_label_of_row [OF a n] cluster_label_of_row [OF a m] a n m
  show ?thesis
    by (simp add: example_defs hostedLabel_def)
qed

text \<open>
  C9, as the claim states it, fails: the projector dereferences the identifier, name, owner,
  status, cloud provider and region of every instance without a nil test. For an instance
  that refers to a cluster missing from the index and holds no owner, it panics on the nil
  owner and produces no row.
\<close>

theorem lookup_miss_with_nil_owner_counterexample:
  "GetClusterId ownerlessKafka = Some ''c1''
   \<and> GetOwner ownerlessKafka = None
   \<and> mapResponseItemsToRows exampleEnv [ownerlessKafka] ''k2'' Map.empty
       = Inl NilPointerDereference"
  by (simp add: example_defs run_defs)

text \<open>
  C9, amended. For instance records that hold their identifier, name, owner, status, cloud
  provider and region, the projector returns one row per instance; an instance whose cluster
  reference has no entry in the index gets its row like the others, with its own
  identifier and the label made from the nil cluster: an empty name and an empty identifier
  in parentheses.
\<close>

theorem lookup_miss_still_gives_row:
  assumes "list_all fieldsPresent kafkas"
  shows "\<exists>rows. mapResponseItemsToRows f kafkas selectedId clusterIdMap = Inr rows
           \<and> length rows = length kafkas
           \<and> (\<forall>i c. i < length kafkas \<and> GetClusterId (kafkas ! i) = Some c
                      \<and> clusterIdMap c = None
                  \<longrightarrow> GetId (kafkas ! i) = Some (ID (rows ! i))
                      \<and> OpenshiftCluster (rows ! i) = '' ()'')"
proof -
  from assms obtain rows where
    m: "mapResponseItemsToRows f kafkas selectedId clusterIdMap = Inr rows"
    using rows_total by blast
  have p: "length rows = length kafkas"
    and q: "\<forall>i < length kafkas. rowOf f (kafkas ! i) selectedId clusterIdMap = Inr (rows ! i)"
    using rows_pointwise [OF m] by auto
  have "\<forall>i c. i < length kafkas \<and> GetClusterId (kafkas ! i) = Some c \<and> clusterIdMap c = None
           \<longrightarrow> GetId (kafkas ! i) = Some (ID (rows ! i))
               \<and> OpenshiftCluster (rows ! i) = '' ()''"
  proof (intro allI impI)
    fix i c
    assume a: "i < length kafkas \<and> GetClusterId (kafkas ! i) = Some c \<and> clusterIdMap c = None"
    then have "rowOf f (kafkas ! i) selectedId clusterIdMap = Inr (rows ! i)" using q by simp
    from rowOf_Inr [OF this] a
    show "GetId (kafkas ! i) = Some (ID (rows ! i)) \<and> OpenshiftCluster (rows ! i) = '' ()''"
      by (simp add: clusterLabel_def Cluster_Name_def Cluster_ID_def)
  qed
  with m p show ?thesis by blast
qed

theorem lookup_miss_still_gives_row_witness:
  "list_all fieldsPresent examplePage
   \<and> GetClusterId (examplePage ! 0) = Some ''c1''
   \<and> mapResponseItemsToRows exampleEnv examplePage ''k2'' Map.empty
     = Inr [exampleRow ''k1'' ''alpha'' '' ()'', exampleRow ''k2'' ''beta (current)'' '' ()'',
            exampleRow ''k3'' ''gamma'' ''kafka.list.output.openshiftCluster.redhat'']"
proof -
  have h: "list_all fieldsPresent examplePage"
    by (simp add: fieldsPresent_def example_defs)
  from lookup_miss_still_gives_row [OF h, of exampleEnv "''k2''" Map.empty] h
  show ?thesis
    by (simp add: example_defs run_defs)
qed

subsection \<open>Presenter and error handling\<close>

text \<open>
  C3. Every failure a collaborator of \<^verbatim>\<open>runList\<close> raises ends the invocation there and
  is what \<^verbatim>\<open>runList\<close> returns, unchanged: a failed connection before anything is sent;
  a failed request for the instances; a failed cluster lookup; for the table, a failed load
  of the session state or of its current context; for a structured format, whatever the
  renderer returns. The construction of the request adapter does not fail, since the
  provider \<^verbatim>\<open>runList\<close> builds for it is never nil. Nothing is tried twice: at most one
  request for the instances and at most one cluster lookup are sent. The empty page asked
  for as a table is the one case that ends in a message and nil.
\<close>

theorem collaborator_failures_returned_unchanged:
  "(\<forall>err. Connection f = Inl err \<longrightarrow> runList f opts = ([], Inr (Some err)))
   \<and> (\<forall>conn. Connection f = Inr conn \<longrightarrow>
         NewNetHttpRequestAdapter (providerOf conn) = (adapterOf conn, None)
         \<and> adapterOf conn \<noteq> None
         \<and> (\<forall>err. KafkasGet f (adapterOf conn) None = Inl err \<longrightarrow>
               runList f opts = (fetchEvents f opts conn, Inr (Some err)))
         \<and> (\<forall>resp. KafkasGet f (adapterOf conn) None = Inr resp \<longrightarrow>
               (GetItems resp = [] \<and> outputFormat opts = [] \<longrightarrow>
                  runList f opts =
                    (fetchEvents f opts conn
                       @ [Info (MustLocalize f ''kafka.common.log.info.noKafkaInstances'' [])],
                     Inr None))
               \<and> (GetItems resp \<noteq> [] \<or> outputFormat opts \<noteq> [] \<longrightarrow>
                    (\<forall>err. clusterRefs (GetItems resp) \<noteq> {}
                            \<and> lookupResult f opts (GetItems resp) = Inl err \<longrightarrow>
                       runList f opts =
                         (fetchEvents f opts conn @ [lookupRequest f opts (GetItems resp)],
                          Inr (Some err)))
                    \<and> (\<forall>ev4 clusterIdMap.
                          getClusterIdMapFromKafkas f opts (GetItems resp)
                            = (ev4, Inr clusterIdMap) \<longrightarrow>
                          (outputFormat opts \<noteq> [] \<longrightarrow>
                             runList f opts =
                               (fetchEvents f opts conn @ ev4
                                  @ [FormattedOut (outputFormat opts) resp],
                                Inr (Formatted f (outputFormat opts) resp)))
                          \<and> (outputFormat opts = [] \<longrightarrow>
                               (\<forall>err. ServiceContextLoad f = Inl err \<longrightarrow>
                                  runList f opts
                                    = (fetchEvents f opts conn @ ev4, Inr (Some err)))
                               \<and> (\<forall>svcContext err.
                                     ServiceContextLoad f = Inr svcContext
                                     \<and> GetCurrentContext f svcContext = Inl err \<longrightarrow>
                                     runList f opts
                                       = (fetchEvents f opts conn @ ev4, Inr (Some err))))))))
   \<and> length (filter isKafkasGetRequest (fst (runList f opts))) \<le> 1
   \<and> length (filter isClusterListRequest (fst (runList f opts))) \<le> 1"
proof (intro conjI allI impI)
  fix err assume "Connection f = Inl err"
  then show "runList f opts = ([], Inr (Some err))"
    by (rule runList_connection_failed)
next
  fix conn
  show "NewNetHttpRequestAdapter (providerOf conn) = (adapterOf conn, None)"
    by (simp add: adapter_construction_succeeds)
  show "adapterOf conn \<noteq> None"
    by (simp add: adapter_construction_succeeds)
next
  fix conn err
  assume "Connection f = Inr conn" and "KafkasGet f (adapterOf conn) None = Inl err"
  then show "runList f opts = (fetchEvents f opts conn, Inr (Some err))"
    by (rule runList_fetch_failed)
next
  fix conn resp
  assume "Connection f = Inr conn" and "KafkasGet f (adapterOf conn) None = Inr resp"
     and "GetItems resp = [] \<and> outputFormat opts = []"
  then show "runList f opts =
               (fetchEvents f opts conn
                  @ [Info (MustLocalize f ''kafka.common.log.info.noKafkaInstances'' [])],
                Inr None)"
    by (simp add: runList_no_instances)
next
  fix conn resp err
  assume c: "Connection f = Inr conn" and k: "KafkasGet f (adapterOf conn) None = Inr resp"
     and n: "GetItems resp \<noteq> [] \<or> outputFormat opts \<noteq> []"
     and l: "clusterRefs (GetItems resp) \<noteq> {} \<and> lookupResult f opts (GetItems resp) = Inl err"
  from l have "getClusterIdMapFromKafkas f opts (GetItems resp)
                 = ([lookupRequest f opts (GetItems resp)], Inl err)"
    by (simp add: resolver_refs)
  from runList_lookup_failed [OF c k n this]
  show "runList f opts =
          (fetchEvents f opts conn @ [lookupRequest f opts (GetItems resp)], Inr (Some err))" .
next
  fix conn resp ev4 clusterIdMap
  assume c: "Connection f = Inr conn" and k: "KafkasGet f (adapterOf conn) None = Inr resp"
     and g: "getClusterIdMapFromKafkas f opts (GetItems resp) = (ev4, Inr clusterIdMap)"
     and s: "outputFormat opts \<noteq> []"
  from runList_structured [OF c k s g]
  show "runList f opts =
          (fetchEvents f opts conn @ ev4 @ [FormattedOut (outputFormat opts) resp],
           Inr (Formatted f (outputFormat opts) resp))" .
next
  fix conn resp ev4 clusterIdMap err
  assume c: "Connection f = Inr conn" and k: "KafkasGet f (adapterOf conn) None = Inr resp"
     and n: "GetItems resp \<noteq> [] \<or> outputFormat opts \<noteq> []"
     and g: "getClusterIdMapFromKafkas f opts (GetItems resp) = (ev4, Inr clusterIdMap)"
     and t: "outputFormat opts = []"
     and d: "ServiceContextLoad f = Inl err"
  from n t have "GetItems resp \<noteq> []" by simp
  from runList_table [OF c k t this g] d
  show "runList f opts = (fetchEvents f opts conn @ ev4, Inr (Some err))"
    by simp
next
  fix conn resp ev4 clusterIdMap svcContext err
  assume c: "Connection f = Inr conn" and k: "KafkasGet f (adapterOf conn) None = Inr resp"
     and n: "GetItems resp \<noteq> [] \<or> outputFormat opts \<noteq> []"
     and g: "getClusterIdMapFromKafkas f opts (GetItems resp) = (ev4, Inr clusterIdMap)"
     and t: "outputFormat opts = []"
     and d: "ServiceContextLoad f = Inr svcContext \<and> GetCurrentContext f svcContext = Inl err"
  from n t have "GetItems resp \<noteq> []" by simp
  from runList_table [OF c k t this g] d
  show "runList f opts = (fetchEvents f opts conn @ ev4, Inr (Some err))"
    by simp
next
  show "length (filter isKafkasGetRequest (fst (runList f opts))) \<le> 1"
    by (rule runList_one_fetch_at_most)
  show "length (filter isClusterListRequest (fst (runList f opts))) \<le> 1"
    by (rule runList_one_lookup_at_most)
qed

theorem collaborator_failures_returned_unchanged_witness:
  "runList connectionDownEnv exampleOptions = ([], Inr (Some (GoError ''not logged in'')))
   \<and> runList fetchDownEnv exampleOptions =
       ([Printf (''+++ Using Kiota client'' @ [CHR 0x0A]),
         KafkasGetRequest (Some exampleAdapter) None],
        Inr (Some (GoError ''401 Unauthorized'')))
   \<and> runList lookupDownEnv exampleOptions =
       ([Printf (''+++ Using Kiota client'' @ [CHR 0x0A]),
         KafkasGetRequest (Some exampleAdapter) None,
         ClusterListRequest ''https://api.example'' ''secret''
           (''id = '' @ [CHR 0x27] @ ''c1'' @ [CHR 0x27]) 1 1],
        Inr (Some (GoError ''unreachable'')))
   \<and> snd (runList sessionDownEnv exampleOptions) = Inr (Some (GoError ''context unreadable''))
   \<and> snd (runList contextDownEnv exampleOptions) = Inr (Some (GoError ''no current context''))
   \<and> snd (runList renderDownEnv pagedOptions) = Inr (Some (GoError ''broken pipe''))
   \<and> snd (runList emptyPageEnv exampleOptions) = Inr None"
proof -
  let ?conn = "\<lparr>AccessToken = ''token''\<rparr>"
  let ?resp = "\<lparr>GetItems = examplePage\<rparr>"
  have a: "adapterOf ?conn = Some exampleAdapter"
    by (simp add: adapterOf_def providerOf_def example_defs NewNetHttpRequestAdapter_def
          NewBaseBearerTokenAuthenticationProvider_def)
  have e: "fetchEvents f exampleOptions ?conn
             = [Printf (''+++ Using Kiota client'' @ [CHR 0x0A]),
                KafkasGetRequest (Some exampleAdapter) None]" for f
    by (simp add: fetchEvents_def a exampleOptions_def)
  have 1: "runList connectionDownEnv exampleOptions
             = ([], Inr (Some (GoError ''not logged in'')))"
  proof -
    have "Connection connectionDownEnv = Inl (GoError ''not logged in'')"
      by (simp add: example_defs)
    with collaborator_failures_returned_unchanged [of connectionDownEnv exampleOptions]
    show ?thesis by blast
  qed
  have 2: "runList fetchDownEnv exampleOptions
             = (fetchEvents fetchDownEnv exampleOptions ?conn,
                Inr (Some (GoError ''401 Unauthorized'')))"
  proof -
    have "Connection fetchDownEnv = Inr ?conn"
      and "KafkasGet fetchDownEnv (adapterOf ?conn) None = Inl (GoError ''401 Unauthorized'')"
      by (simp_all add: example_defs)
    with collaborator_failures_returned_unchanged [of fetchDownEnv exampleOptions]
    show ?thesis by blast
  qed
  have 3: "runList lookupDownEnv exampleOptions
             = (fetchEvents lookupDownEnv exampleOptions ?conn
                  @ [lookupRequest lookupDownEnv exampleOptions (GetItems ?resp)],
                Inr (Some (GoError ''unreachable'')))"
  proof -
    have "Connection lookupDownEnv = Inr ?conn"
      and "KafkasGet lookupDownEnv (adapterOf ?conn) None = Inr ?resp"
      and "GetItems ?resp \<noteq> [] \<or> outputFormat exampleOptions \<noteq> []"
      and "clusterRefs (GetItems ?resp) \<noteq> {}
           \<and> lookupResult lookupDownEnv exampleOptions (GetItems ?resp)
               = Inl (GoError ''unreachable'')"
      by (simp_all add: example_defs clusterRefs_def List.map_filter_simps lookupResult_def)
    with collaborator_failures_returned_unchanged [of lookupDownEnv exampleOptions]
    show ?thesis by blast
  qed
  have q: "lookupRequest lookupDownEnv exampleOptions examplePage
             = ClusterListRequest ''https://api.example'' ''secret''
                 (''id = '' @ [CHR 0x27] @ ''c1'' @ [CHR 0x27]) 1 1"
    by (simp add: lookupRequest_def createSearchString_def setInsert_def example_defs)
  have g: "getClusterIdMapFromKafkas f exampleOptions (GetItems ?resp)
             = ([lookupRequest f exampleOptions (GetItems ?resp)],
                Inr (indexClusters [prodCluster] Map.empty))"
    if "GetClusterListWithSearchParams f = (\<lambda>url token search' page' size'. Inr [prodCluster])"
    for f
    using that
    by (simp add: resolver_refs lookupResult_def clusterRefs_def List.map_filter_simps
          example_defs)
  have 4: "snd (runList sessionDownEnv exampleOptions)
             = Inr (Some (GoError ''context unreadable''))"
  proof -
    have "Connection sessionDownEnv = Inr ?conn"
      and "KafkasGet sessionDownEnv (adapterOf ?conn) None = Inr ?resp"
      and "GetItems ?resp \<noteq> [] \<or> outputFormat exampleOptions \<noteq> []"
      and "outputFormat exampleOptions = []"
      and "ServiceContextLoad sessionDownEnv = Inl (GoError ''context unreadable'')"
      by (simp_all add: example_defs)
    moreover have "getClusterIdMapFromKafkas sessionDownEnv exampleOptions (GetItems ?resp)
             = ([lookupRequest sessionDownEnv exampleOptions (GetItems ?resp)],
                Inr (indexClusters [prodCluster] Map.empty))"
      by (rule g) (simp add: example_defs)
    ultimately have "runList sessionDownEnv exampleOptions
        = (fetchEvents sessionDownEnv exampleOptions ?conn
             @ [lookupRequest sessionDownEnv exampleOptions (GetItems ?resp)],
           Inr (Some (GoError ''context unreadable'')))"
      using collaborator_failures_returned_unchanged [of sessionDownEnv exampleOptions]
      by blast
    then show ?thesis by simp
  qed
  have 5: "snd (runList contextDownEnv exampleOptions)
             = Inr (Some (GoError ''no current context''))"
  proof -
    have "Connection contextDownEnv = Inr ?conn"
      and "KafkasGet contextDownEnv (adapterOf ?conn) None = Inr ?resp"
      and "GetItems ?resp \<noteq> [] \<or> outputFormat exampleOptions \<noteq> []"
      and "outputFormat exampleOptions = []"
      and "ServiceContextLoad contextDownEnv = Inr (ServiceContext 0)
           \<and> GetCurrentContext contextDownEnv (ServiceContext 0)
               = Inl (GoError ''no current context'')"
      by (simp_all add: example_defs)
    moreover have "getClusterIdMapFromKafkas contextDownEnv exampleOptions (GetItems ?resp)
             = ([lookupRequest contextDownEnv exampleOptions (GetItems ?resp)],
                Inr (indexClusters [prodCluster] Map.empty))"
      by (rule g) (simp add: example_defs)
    ultimately have "runList contextDownEnv exampleOptions
        = (fetchEvents contextDownEnv exampleOptions ?conn
             @ [lookupRequest contextDownEnv exampleOptions (GetItems ?resp)],
           Inr (Some (GoError ''no current context'')))"
      using collaborator_failures_returned_unchanged [of contextDownEnv exampleOptions]
      by blast
    then show ?thesis by simp
  qed
  have 6: "snd (runList renderDownEnv pagedOptions) = Inr (Some (GoError ''broken pipe''))"
  proof -
    have "Connection renderDownEnv = Inr ?conn"
      and "KafkasGet renderDownEnv (adapterOf ?conn) None = Inr ?resp"
      and "GetItems ?resp \<noteq> [] \<or> outputFormat pagedOptions \<noteq> []"
      and "outputFormat pagedOptions \<noteq> []"
      by (simp_all add: example_defs)
    moreover have "getClusterIdMapFromKafkas renderDownEnv pagedOptions (GetItems ?resp)
             = ([lookupRequest renderDownEnv pagedOptions (GetItems ?resp)],
                Inr (indexClusters [prodCluster] Map.empty))"
      by (simp add: resolver_refs lookupResult_def clusterRefs_def List.map_filter_simps
            example_defs)
    ultimately have "runList renderDownEnv pagedOptions
        = (fetchEvents renderDownEnv pagedOptions ?conn
             @ [lookupRequest renderDownEnv pagedOptions (GetItems ?resp)]
             @ [FormattedOut (outputFormat pagedOptions) ?resp],
           Inr (Formatted renderDownEnv (outputFormat pagedOptions) ?resp))"
      using collaborator_failures_returned_unchanged [of renderDownEnv pagedOptions]
      by blast
    then show ?thesis by (simp add: example_defs)
  qed
  have 7: "snd (runList emptyPageEnv exampleOptions) = Inr None"
  proof -
    have "Connection emptyPageEnv = Inr ?conn"
      and "KafkasGet emptyPageEnv (adapterOf ?conn) None = Inr \<lparr>GetItems = []\<rparr>"
      and "GetItems \<lparr>GetItems = []\<rparr> = [] \<and> outputFormat exampleOptions = []"
      by (simp_all add: example_defs)
    with collaborator_failures_returned_unchanged [of emptyPageEnv exampleOptions]
    have "runList emptyPageEnv exampleOptions =
            (fetchEvents emptyPageEnv exampleOptions ?conn
               @ [Info (MustLocalize emptyPageEnv ''kafka.common.log.info.noKafkaInstances'' [])],
             Inr None)"
      by blast
    then show ?thesis by simp
  qed
  from 1 2 3 4 5 6 7 show ?thesis
    by (simp add: e q)
qed

text \<open>
  C7. When the connection is there and the instance-management API answers with an empty
  page: for the table format (the empty format string) the invocation returns nil, logs
  the one "no instances" message and renders nothing; for any other format it hands the
  empty page to the structured renderer, returns what the renderer returns, logs no
  message, and sends no request beyond the one for the instances.
\<close>

theorem empty_page_presentation:
  assumes "Connection f = Inr conn"
      and "KafkasGet f (adapterOf conn) None = Inr resp"
      and "GetItems resp = []"
  shows "(outputFormat opts = [] \<longrightarrow>
            snd (runList f opts) = Inr None
            \<and> filter isInfo (fst (runList f opts))
                = [Info (MustLocalize f ''kafka.common.log.info.noKafkaInstances'' [])]
            \<and> filter isRendering (fst (runList f opts)) = [])
         \<and> (outputFormat opts \<noteq> [] \<longrightarrow>
            snd (runList f opts) = Inr (Formatted f (outputFormat opts) resp)
            \<and> filter isRendering (fst (runList f opts))
                = [FormattedOut (outputFormat opts) resp]
            \<and> filter isInfo (fst (runList f opts)) = []
            \<and> filter isRequest (fst (runList f opts))
                = [KafkasGetRequest (adapterOf conn) None])"
proof (intro conjI impI)
  assume t: "outputFormat opts = []"
  note r = runList_no_instances [OF assms t]
  show "snd (runList f opts) = Inr None" by (simp add: r)
  show "filter isInfo (fst (runList f opts))
          = [Info (MustLocalize f ''kafka.common.log.info.noKafkaInstances'' [])]"
    by (simp add: r fetchEvents_no_info)
  show "filter isRendering (fst (runList f opts)) = []"
    by (simp add: r fetchEvents_no_rendering)
next
  assume s: "outputFormat opts \<noteq> []"
  have g: "getClusterIdMapFromKafkas f opts (GetItems resp) = ([], Inr Map.empty)"
    using assms(3) by (simp add: getClusterIdMapFromKafkas_def)
  note r = runList_structured [OF assms(1,2) s g]
  show "snd (runList f opts) = Inr (Formatted f (outputFormat opts) resp)" by (simp add: r)
  show "filter isRendering (fst (runList f opts)) = [FormattedOut (outputFormat opts) resp]"
    by (simp add: r fetchEvents_no_rendering)
  show "filter isInfo (fst (runList f opts)) = []"
    by (simp add: r fetchEvents_no_info)
  show "filter isRequest (fst (runList f opts)) = [KafkasGetRequest (adapterOf conn) None]"
    by (simp add: r fetchEvents_requests)
qed

theorem empty_page_presentation_witness:
  "Connection emptyPageEnv = Inr \<lparr>AccessToken = ''token''\<rparr>
   \<and> KafkasGet emptyPageEnv (adapterOf \<lparr>AccessToken = ''token''\<rparr>) None
       = Inr \<lparr>GetItems = []\<rparr>
   \<and> snd (runList emptyPageEnv exampleOptions) = Inr None
   \<and> filter isInfo (fst (runList emptyPageEnv exampleOptions))
       = [Info ''kafka.common.log.info.noKafkaInstances'']
   \<and> filter isRendering (fst (runList emptyPageEnv exampleOptions)) = []
   \<and> snd (runList emptyPageEnv pagedOptions) = Inr None
   \<and> filter isRendering (fst (runList emptyPageEnv pagedOptions))
       = [FormattedOut ''json'' \<lparr>GetItems = []\<rparr>]
   \<and> filter isInfo (fst (runList emptyPageEnv pagedOptions)) = []"
proof -
  have c: "Connection emptyPageEnv = Inr \<lparr>AccessToken = ''token''\<rparr>"
    by (simp add: example_defs)
  have k: "KafkasGet emptyPageEnv (adapterOf \<lparr>AccessToken = ''token''\<rparr>) None
             = Inr \<lparr>GetItems = []\<rparr>"
    by (simp add: example_defs)
  have i: "GetItems \<lparr>GetItems = []\<rparr> = []"
    by simp
  from empty_page_presentation [OF c k i, of exampleOptions]
       empty_page_presentation [OF c k i, of pagedOptions] c k
  show ?thesis
    by (simp add: example_defs)
qed

text \<open>
  C10. When the connection is there, the fetched page refers to a cluster and a structured
  format is asked for, the invocation sends two requests, the one for the instances and
  the cluster lookup. If the lookup fails, the invocation returns the lookup's error and
  renders nothing. If the lookup is answered, the invocation renders the fetched page as
  it is and returns what the renderer returns, whatever clusters the answer holds.
\<close>

theorem structured_output_still_looks_up_clusters:
  assumes "Connection f = Inr conn"
      and "KafkasGet f (adapterOf conn) None = Inr resp"
      and "clusterRefs (GetItems resp) \<noteq> {}"
      and "outputFormat opts \<noteq> []"
  shows "filter isRequest (fst (runList f opts))
           = [KafkasGetRequest (adapterOf conn) None, lookupRequest f opts (GetItems resp)]
         \<and> (\<forall>err. lookupResult f opts (GetItems resp) = Inl err \<longrightarrow>
               snd (runList f opts) = Inr (Some err)
               \<and> filter isRendering (fst (runList f opts)) = [])
         \<and> (\<forall>clusters. lookupResult f opts (GetItems resp) = Inr clusters \<longrightarrow>
               snd (runList f opts) = Inr (Formatted f (outputFormat opts) resp)
               \<and> filter isRendering (fst (runList f opts))
                   = [FormattedOut (outputFormat opts) resp])"
proof -
  note g = resolver_refs [OF assms(3), of f opts]
  have q: "isRequest (lookupRequest f opts (GetItems resp))"
    by (simp add: lookupRequest_def)
  have n: "\<not> isRendering (lookupRequest f opts (GetItems resp))"
    by (simp add: lookupRequest_def)
  have c: "GetItems resp \<noteq> [] \<or> outputFormat opts \<noteq> []" using assms(4) by simp
  show ?thesis
  proof (cases "lookupResult f opts (GetItems resp)")
    case (Inl err)
    with g have "getClusterIdMapFromKafkas f opts (GetItems resp)
                   = ([lookupRequest f opts (GetItems resp)], Inl err)" by simp
    from runList_lookup_failed [OF assms(1,2) c this] Inl q n show ?thesis
      by (simp add: fetchEvents_requests fetchEvents_no_rendering)
  next
    case (Inr clusters)
    with g have "getClusterIdMapFromKafkas f opts (GetItems resp)
                   = ([lookupRequest f opts (GetItems resp)],
                      Inr (indexClusters clusters Map.empty))" by simp
    from runList_structured [OF assms(1,2,4) this] Inr q n show ?thesis
      by (simp add: fetchEvents_requests fetchEvents_no_rendering)
  qed
qed

theorem structured_output_still_looks_up_clusters_witness:
  "Connection exampleEnv = Inr \<lparr>AccessToken = ''token''\<rparr>
   \<and> KafkasGet exampleEnv (adapterOf \<lparr>AccessToken = ''token''\<rparr>) None
       = Inr \<lparr>GetItems = examplePage\<rparr>
   \<and> clusterRefs examplePage \<noteq> {}
   \<and> outputFormat pagedOptions \<noteq> []
   \<and> lookupResult lookupDownEnv pagedOptions examplePage = Inl (GoError ''unreachable'')
   \<and> snd (runList lookupDownEnv pagedOptions) = Inr (Some (GoError ''unreachable''))
   \<and> filter isRendering (fst (runList lookupDownEnv pagedOptions)) = []
   \<and> lookupResult exampleEnv pagedOptions examplePage = Inr [prodCluster]
   \<and> snd (runList exampleEnv pagedOptions) = Inr None
   \<and> filter isRendering (fst (runList exampleEnv pagedOptions))
       = [FormattedOut ''json'' \<lparr>GetItems = examplePage\<rparr>]
   \<and> filter isRequest (fst (runList exampleEnv pagedOptions))
       = [KafkasGetRequest (Some exampleAdapter) None,
          ClusterListRequest ''https://api.example'' ''secret''
            (''id = '' @ [CHR 0x27] @ ''c1'' @ [CHR 0x27]) 1 1]"
proof -
  have c: "Connection exampleEnv = Inr \<lparr>AccessToken = ''token''\<rparr>"
    and c': "Connection lookupDownEnv = Inr \<lparr>AccessToken = ''token''\<rparr>"
    by (simp_all add: example_defs)
  have k: "KafkasGet exampleEnv (adapterOf \<lparr>AccessToken = ''token''\<rparr>) None
             = Inr \<lparr>GetItems = examplePage\<rparr>"
    and k': "KafkasGet lookupDownEnv (adapterOf \<lparr>AccessToken = ''token''\<rparr>) None
             = Inr \<lparr>GetItems = examplePage\<rparr>"
    by (simp_all add: example_defs)
  have r: "clusterRefs (GetItems \<lparr>GetItems = examplePage\<rparr>) \<noteq> {}"
    by (simp add: clusterRefs_def example_defs List.map_filter_simps)
  have s: "outputFormat pagedOptions \<noteq> []"
    by (simp add: example_defs)
  have d: "lookupResult lookupDownEnv pagedOptions examplePage = Inl (GoError ''unreachable'')"
    by (simp add: lookupResult_def example_defs)
  have u: "lookupResult exampleEnv pagedOptions examplePage = Inr [prodCluster]"
    by (simp add: lookupResult_def example_defs)
  have q: "lookupRequest exampleEnv pagedOptions examplePage
             = ClusterListRequest ''https://api.example'' ''secret''
                 (''id = '' @ [CHR 0x27] @ ''c1'' @ [CHR 0x27]) 1 1"
    by (simp add: lookupRequest_def createSearchString_def setInsert_def example_defs)
  have a: "adapterOf \<lparr>AccessToken = ''token''\<rparr> = Some exampleAdapter"
    by (simp add: adapterOf_def providerOf_def example_defs NewNetHttpRequestAdapter_def
          NewBaseBearerTokenAuthenticationProvider_def)
  have f: "Formatted exampleEnv ''json'' \<lparr>GetItems = examplePage\<rparr> = None"
    and o: "outputFormat pagedOptions = ''json''"
    by (simp_all add: example_defs)
  from structured_output_still_looks_up_clusters [OF c k r s]
       structured_output_still_looks_up_clusters [OF c' k' r s]
       c k r s d u q a f o
  show ?thesis
    by simp
qed

end
